theory Spec2Isabelle
  imports Complex_Main
begin

text \<open>
  A model of the restaurant reservation API: the handlers of
  \<^verbatim>\<open>routes/reservations.js\<close>, the \<^verbatim>\<open>PATCH\<close> handlers of
  \<^verbatim>\<open>routes/tables.js\<close> and \<^verbatim>\<open>routes/users.js\<close>, the error middleware of
  \<^verbatim>\<open>server.js\<close>, and the Prisma client over the three models of
  \<^verbatim>\<open>schema.prisma\<close>. A handler is a function from the store (and the request) to
  what it passes on, a reply or an error, and the store it leaves behind.
\<close>

section \<open>JavaScript values in request bodies\<close>

text \<open>
  \<^verbatim>\<open>express.json()\<close> hands every handler a parsed JSON object. A field of
  such an object is one of the values below; a key that the client did not send reads as
  \<^verbatim>\<open>undefined\<close>. Numbers are the finite values a JSON literal denotes; strings are
  lists of code units below 256.
\<close>

datatype jsval =
    JUndefined
  | JNull
  | JBool bool
  | JNum rat
  | JStr string
  | JArr "jsval list"
  | JObj "(string \<times> jsval) list"

type_synonym body = "string \<Rightarrow> jsval"

text \<open>\<^verbatim>\<open>!v\<close> is \<open>\<not> truthy v\<close>: the falsy values are undefined, null, false, 0 and the
  empty string.\<close>

fun truthy :: "jsval \<Rightarrow> bool" where
  "truthy JUndefined = False"
| "truthy JNull = False"
| "truthy (JBool b) = b"
| "truthy (JNum q) = (q \<noteq> 0)"
| "truthy (JStr s) = (s \<noteq> [])"
| "truthy (JArr xs) = True"
| "truthy (JObj kvs) = True"

fun typeof :: "jsval \<Rightarrow> string" where
  "typeof JUndefined = ''undefined''"
| "typeof JNull = ''object''"
| "typeof (JBool b) = ''boolean''"
| "typeof (JNum q) = ''number''"
| "typeof (JStr s) = ''string''"
| "typeof (JArr xs) = ''object''"
| "typeof (JObj kvs) = ''object''"

text \<open>\<^verbatim>\<open>Number.isInteger(v)\<close>: false on everything that is not a number.\<close>

fun Number_isInteger :: "jsval \<Rightarrow> bool" where
  "Number_isInteger (JNum q) = (of_int \<lfloor>q\<rfloor> = q)"
| "Number_isInteger _ = False"

text \<open>Truncation towards zero (ECMAScript's ToIntegerOrInfinity and the integer part that
  \<^verbatim>\<open>parseInt\<close> reads off a number printed in decimal notation).\<close>

definition js_trunc :: "rat \<Rightarrow> int" where
  "js_trunc q = (if 0 \<le> q then \<lfloor>q\<rfloor> else \<lceil>q\<rceil>)"

subsection \<open>What is left to the JavaScript engine\<close>

text \<open>
  Four conversions are not written out and are taken as parameters, so that every theorem
  below holds whatever the engine answers:
  \<^item> \<open>Date_parse s\<close>: the time value (milliseconds since the epoch) of \<^verbatim>\<open>new Date(s)\<close>
    for a string, \<open>None\<close> for an Invalid Date. ECMAScript leaves it to the implementation
    outside the ISO format.
  \<^item> \<open>le_zero v\<close>: the result of \<^verbatim>\<open>v <= 0\<close> for a string, an array or an object (the
    comparison converts \<open>v\<close> to a number first).
  \<^item> \<open>parseInt_other v\<close>: \<^verbatim>\<open>parseInt(v)\<close> for an array or an object, and for a number
    that JavaScript prints in exponent notation (absolute value at least \<open>10^21\<close>, or below
    \<open>10^-6\<close> and not zero); \<open>None\<close> is NaN.
  \<^item> \<open>Date_other v\<close>: the time value of \<^verbatim>\<open>new Date(v)\<close> for an array or an object.
\<close>

record engine =
  Date_parse :: "string \<Rightarrow> int option"
  le_zero :: "jsval \<Rightarrow> bool"
  parseInt_other :: "jsval \<Rightarrow> int option"
  Date_other :: "jsval \<Rightarrow> int option"

subsection \<open>parseInt\<close>

text \<open>
  \<^verbatim>\<open>parseInt(string)\<close> with no radix: leading white space is skipped, a sign is read,
  a \<^verbatim>\<open>0x\<close> prefix selects radix 16, and the longest prefix of digits is the result;
  no digit at all gives NaN (\<open>None\<close>). The result is the mathematical integer; JavaScript
  rounds it to a double, which is the same value wherever the store accepts it.
\<close>

definition is_white_space :: "char \<Rightarrow> bool" where
  "is_white_space c = ((of_char c :: nat) \<in> {9, 10, 11, 12, 13, 32, 160})"

definition digit_of :: "nat \<Rightarrow> char \<Rightarrow> nat option" where
  "digit_of radix c =
     (let k = (of_char c :: nat);
          v = (if 48 \<le> k \<and> k \<le> 57 then Some (k - 48)
               else if 97 \<le> k \<and> k \<le> 122 then Some (k - 87)
               else if 65 \<le> k \<and> k \<le> 90 then Some (k - 55)
               else None)
      in case v of None \<Rightarrow> None | Some d \<Rightarrow> if d < radix then Some d else None)"

fun digits_value :: "nat \<Rightarrow> nat \<Rightarrow> string \<Rightarrow> nat" where
  "digits_value radix acc [] = acc"
| "digits_value radix acc (c # cs) =
     (case digit_of radix c of
        None \<Rightarrow> acc
      | Some d \<Rightarrow> digits_value radix (acc * radix + d) cs)"

definition parse_digits :: "nat \<Rightarrow> string \<Rightarrow> nat option" where
  "parse_digits radix s =
     (case s of
        [] \<Rightarrow> None
      | c # cs \<Rightarrow> (case digit_of radix c of
                     None \<Rightarrow> None
                   | Some d \<Rightarrow> Some (digits_value radix 0 s)))"

definition strip_sign :: "string \<Rightarrow> int \<times> string" where
  "strip_sign s =
     (case s of
        [] \<Rightarrow> (1, [])
      | c # cs \<Rightarrow> if c = CHR ''-'' then (- 1, cs)
                 else if c = CHR ''+'' then (1, cs)
                 else (1, s))"

definition strip_prefix :: "string \<Rightarrow> nat \<times> string" where
  "strip_prefix s =
     (case s of
        c # d # cs \<Rightarrow> if c = CHR ''0'' \<and> (d = CHR ''x'' \<or> d = CHR ''X'') then (16, cs)
                     else (10, s)
      | _ \<Rightarrow> (10, s))"

definition parseInt_string :: "string \<Rightarrow> int option" where
  "parseInt_string s =
     (let (sign, s1) = strip_sign (dropWhile is_white_space s);
          (radix, s2) = strip_prefix s1
      in map_option (\<lambda>n. sign * int n) (parse_digits radix s2))"

definition prints_in_decimal :: "rat \<Rightarrow> bool" where
  "prints_in_decimal q = (q = 0 \<or> (1 / 10 ^ 6 \<le> \<bar>q\<bar> \<and> \<bar>q\<bar> < 10 ^ 21))"

fun parseInt :: "engine \<Rightarrow> jsval \<Rightarrow> int option" where
  "parseInt E (JStr s) = parseInt_string s"
| "parseInt E (JNum q) =
     (if prints_in_decimal q then Some (js_trunc q) else parseInt_other E (JNum q))"
| "parseInt E JUndefined = None"
| "parseInt E JNull = None"
| "parseInt E (JBool b) = None"
| "parseInt E v = parseInt_other E v"

subsection \<open>Comparison with zero and Date construction\<close>

text \<open>\<^verbatim>\<open>v <= 0\<close>: the operand is converted to a number; undefined becomes NaN, which
  compares false; null becomes 0, true 1 and false 0.\<close>

fun js_le_zero :: "engine \<Rightarrow> jsval \<Rightarrow> bool" where
  "js_le_zero E (JNum q) = (q \<le> 0)"
| "js_le_zero E JUndefined = False"
| "js_le_zero E JNull = True"
| "js_le_zero E (JBool b) = (\<not> b)"
| "js_le_zero E v = le_zero E v"

text \<open>\<^verbatim>\<open>new Date(v)\<close>: a string is parsed, anything else is converted to a number and
  clipped to the range of time values; \<open>None\<close> is an Invalid Date.\<close>

definition TimeClip :: "rat \<Rightarrow> int option" where
  "TimeClip q = (if \<bar>q\<bar> \<le> 8640000000000000 then Some (js_trunc q) else None)"

fun new_Date :: "engine \<Rightarrow> jsval \<Rightarrow> int option" where
  "new_Date E (JStr s) = Date_parse E s"
| "new_Date E (JNum q) = TimeClip q"
| "new_Date E JUndefined = None"
| "new_Date E JNull = Some 0"
| "new_Date E (JBool b) = Some (if b then 1 else 0)"
| "new_Date E v = Date_other E v"

section \<open>The store: Prisma client over \<^verbatim>\<open>schema.prisma\<close>\<close>

text \<open>
  The three models of the schema. The \<^verbatim>\<open>createdAt\<close> and \<^verbatim>\<open>updatedAt\<close> columns
  are left out (they depend on the clock and no handler reads them). A \<^verbatim>\<open>DateTime\<close>
  is its time value in milliseconds. Rows are kept in lists, in the order in which the
  database returns them to a query without \<^verbatim>\<open>orderBy\<close>; \<^verbatim>\<open>findFirst\<close> takes the
  first match in that order.
\<close>

record User =
  u_id :: int
  username :: string
  email :: string
  password :: string
  isAdmin :: bool

record Table =
  t_id :: int
  name :: string
  capacity :: int
  isAvailable :: bool

record Reservation =
  r_id :: int
  date :: int
  time :: string
  people :: int
  status :: string
  userId :: int
  tableId :: "int option"

text \<open>\<open>reservation_seq\<close> is the last value handed out by the autoincrement sequence of
  \<^verbatim>\<open>Reservation.id\<close>.\<close>

record store =
  users :: "User list"
  tables :: "Table list"
  reservations :: "Reservation list"
  reservation_seq :: int

text \<open>
  The relation fields of model \<^verbatim>\<open>Reservation\<close>, as the schema declares them:
  \<^verbatim>\<open>User  User   @relation(fields: [userId], references: [id])\<close> and
  \<^verbatim>\<open>table Table? @relation(fields: [tableId], references: [id])\<close>.
  Field names are case sensitive; an \<^verbatim>\<open>include\<close> that names any other field is
  rejected by the client before a query is sent.
\<close>

definition Reservation_relations :: "string list" where
  "Reservation_relations = [''User'', ''table'']"

definition include_ok :: "string list \<Rightarrow> bool" where
  "include_ok inc = list_all (\<lambda>k. k \<in> set Reservation_relations) inc"

text \<open>
  What a failing client call throws. Only the code \<^verbatim>\<open>P2025\<close> (record to update or
  delete not found) is ever inspected by a handler; the others are an argument of the wrong
  type or shape, a number outside the 32-bit \<^verbatim>\<open>Int\<close> columns, a unique constraint
  (\<^verbatim>\<open>P2002\<close>) and a foreign key constraint (\<^verbatim>\<open>P2003\<close>).
\<close>

datatype prisma_error = PrismaClientValidationError | OutOfRange | P2002 | P2003 | P2025

definition is_Int :: "int \<Rightarrow> bool" where
  "is_Int n = (- 2147483648 \<le> n \<and> n \<le> 2147483647)"

text \<open>Arguments as JavaScript passes them: a number that may be NaN (\<open>None\<close>), a Date
  that may be invalid (\<open>None\<close>), any value where a string or a boolean is expected.\<close>

definition check_Int :: "int option \<Rightarrow> prisma_error + int" where
  "check_Int v =
     (case v of
        None \<Rightarrow> Inl PrismaClientValidationError
      | Some n \<Rightarrow> if is_Int n then Inr n else Inl OutOfRange)"

definition check_DateTime :: "int option \<Rightarrow> prisma_error + int" where
  "check_DateTime v =
     (case v of None \<Rightarrow> Inl PrismaClientValidationError | Some d \<Rightarrow> Inr d)"

definition check_String :: "jsval \<Rightarrow> prisma_error + string" where
  "check_String v =
     (case v of JStr s \<Rightarrow> Inr s | _ \<Rightarrow> Inl PrismaClientValidationError)"

definition check_Boolean :: "jsval \<Rightarrow> prisma_error + bool" where
  "check_Boolean v =
     (case v of JBool b \<Rightarrow> Inr b | _ \<Rightarrow> Inl PrismaClientValidationError)"

text \<open>A field of an update's \<^verbatim>\<open>data\<close> that is \<^verbatim>\<open>undefined\<close> is left alone.\<close>

definition check_opt_String :: "jsval \<Rightarrow> prisma_error + string option" where
  "check_opt_String v =
     (case v of
        JUndefined \<Rightarrow> Inr None
      | JStr s \<Rightarrow> Inr (Some s)
      | _ \<Rightarrow> Inl PrismaClientValidationError)"

definition check_opt_Int :: "int option option \<Rightarrow> prisma_error + int option" where
  "check_opt_Int v =
     (case v of
        None \<Rightarrow> Inr None
      | Some x \<Rightarrow> (case check_Int x of Inl e \<Rightarrow> Inl e | Inr n \<Rightarrow> Inr (Some n)))"

definition check_opt_DateTime :: "int option option \<Rightarrow> prisma_error + int option" where
  "check_opt_DateTime v =
     (case v of
        None \<Rightarrow> Inr None
      | Some x \<Rightarrow> (case check_DateTime x of Inl e \<Rightarrow> Inl e | Inr d \<Rightarrow> Inr (Some d)))"

subsection \<open>Queries\<close>

text \<open>A reservation row together with its relations, as \<^verbatim>\<open>include\<close> returns it:
  the \<^verbatim>\<open>User\<close> relation and the \<^verbatim>\<open>table\<close> relation (\<open>None\<close> when the relation is
  not included or the row has no table).\<close>

type_synonym found = "Reservation \<times> User option \<times> Table option"

definition with_relations :: "store \<Rightarrow> string list \<Rightarrow> Reservation \<Rightarrow> found" where
  "with_relations st inc r =
     (r,
      if ''User'' \<in> set inc then find (\<lambda>u. u_id u = userId r) (users st) else None,
      if ''table'' \<in> set inc
      then (case tableId r of
              None \<Rightarrow> None
            | Some n \<Rightarrow> find (\<lambda>t. t_id t = n) (tables st))
      else None)"

text \<open>\<^verbatim>\<open>prisma.table.findFirst({ where: { capacity: { gte: n }, isAvailable: true } })\<close>\<close>

definition table_findFirst :: "store \<Rightarrow> int option \<Rightarrow> prisma_error + Table option" where
  "table_findFirst st gte =
     (case check_Int gte of
        Inl e \<Rightarrow> Inl e
      | Inr n \<Rightarrow> Inr (find (\<lambda>t. n \<le> capacity t \<and> isAvailable t) (tables st)))"

text \<open>\<^verbatim>\<open>prisma.reservation.findFirst({ where: { tableId, date, time,
  status: { in: ['booked', 'seated'] } } })\<close>\<close>

definition reservation_findFirst ::
  "store \<Rightarrow> int \<Rightarrow> int option \<Rightarrow> jsval \<Rightarrow> string list \<Rightarrow> prisma_error + Reservation option"
where
  "reservation_findFirst st tid dt tm statuses =
     (case check_DateTime dt of
        Inl e \<Rightarrow> Inl e
      | Inr d \<Rightarrow>
          (case check_String tm of
             Inl e \<Rightarrow> Inl e
           | Inr s \<Rightarrow>
               Inr (find (\<lambda>r. tableId r = Some tid \<and> date r = d \<and> time r = s
                              \<and> status r \<in> set statuses)
                         (reservations st))))"

text \<open>\<^verbatim>\<open>prisma.reservation.findUnique({ where: { id }, include })\<close>\<close>

definition reservation_findUnique ::
  "store \<Rightarrow> int option \<Rightarrow> string list \<Rightarrow> prisma_error + found option"
where
  "reservation_findUnique st where_id inc =
     (if \<not> include_ok inc then Inl PrismaClientValidationError
      else case check_Int where_id of
             Inl e \<Rightarrow> Inl e
           | Inr n \<Rightarrow>
               Inr (map_option (with_relations st inc)
                      (find (\<lambda>r. r_id r = n) (reservations st))))"

subsection \<open>Writes\<close>

text \<open>
  \<^verbatim>\<open>prisma.reservation.create({ data: { date, time, people, status, userId, tableId },
  include })\<close>. The arguments are checked first; then the row is inserted under the next
  value of the sequence, which the database consumes even when the insert is refused by a
  foreign key (\<^verbatim>\<open>userId\<close> and \<^verbatim>\<open>tableId\<close> must name existing rows).
\<close>

definition reservation_create ::
  "store \<Rightarrow> int option \<Rightarrow> jsval \<Rightarrow> int option \<Rightarrow> string \<Rightarrow> int option \<Rightarrow> int \<Rightarrow> string list
     \<Rightarrow> (prisma_error + found) \<times> store"
where
  "reservation_create st dt tm ppl stat uid tid inc =
     (if \<not> include_ok inc then (Inl PrismaClientValidationError, st)
      else case check_DateTime dt of
        Inl e \<Rightarrow> (Inl e, st)
      | Inr d \<Rightarrow>
     (case check_String tm of
        Inl e \<Rightarrow> (Inl e, st)
      | Inr s \<Rightarrow>
     (case check_Int ppl of
        Inl e \<Rightarrow> (Inl e, st)
      | Inr p \<Rightarrow>
     (case check_Int uid of
        Inl e \<Rightarrow> (Inl e, st)
      | Inr u \<Rightarrow>
          (let n = reservation_seq st + 1;
               st1 = st\<lparr>reservation_seq := n\<rparr>
           in if find (\<lambda>x. u_id x = u) (users st) = None
                 \<or> find (\<lambda>x. t_id x = tid) (tables st) = None
              then (Inl P2003, st1)
              else
                (let r = \<lparr>r_id = n, date = d, time = s, people = p, status = stat,
                          userId = u, tableId = Some tid\<rparr>;
                     st2 = st1\<lparr>reservations := reservations st @ [r]\<rparr>
                 in (Inr (with_relations st2 inc r), st2)))))))"

text \<open>The \<^verbatim>\<open>data\<close> of \<^verbatim>\<open>prisma.table.update\<close>: a key that is absent is \<open>None\<close>.\<close>

record table_updates =
  upd_name :: "jsval option"
  upd_capacity :: "jsval option"
  upd_isAvailable :: "jsval option"

definition no_table_updates :: table_updates where
  "no_table_updates = \<lparr>upd_name = None, upd_capacity = None, upd_isAvailable = None\<rparr>"

definition check_Int_value :: "jsval \<Rightarrow> prisma_error + int" where
  "check_Int_value v =
     (case v of
        JNum q \<Rightarrow> if of_int \<lfloor>q\<rfloor> = q
                  then (if is_Int \<lfloor>q\<rfloor> then Inr \<lfloor>q\<rfloor> else Inl OutOfRange)
                  else Inl PrismaClientValidationError
      | _ \<Rightarrow> Inl PrismaClientValidationError)"

definition check_key :: "('v \<Rightarrow> prisma_error + 'a) \<Rightarrow> 'v option \<Rightarrow> prisma_error + 'a option" where
  "check_key chk v =
     (case v of
        None \<Rightarrow> Inr None
      | Some x \<Rightarrow> (case chk x of Inl e \<Rightarrow> Inl e | Inr y \<Rightarrow> Inr (Some y)))"

definition set_Table :: "string option \<Rightarrow> int option \<Rightarrow> bool option \<Rightarrow> Table \<Rightarrow> Table" where
  "set_Table n c a t =
     t\<lparr>name := (case n of None \<Rightarrow> name t | Some x \<Rightarrow> x),
       capacity := (case c of None \<Rightarrow> capacity t | Some x \<Rightarrow> x),
       isAvailable := (case a of None \<Rightarrow> isAvailable t | Some x \<Rightarrow> x)\<rparr>"

text \<open>\<^verbatim>\<open>prisma.table.update({ where: { id }, data })\<close>\<close>

definition table_update ::
  "store \<Rightarrow> int option \<Rightarrow> table_updates \<Rightarrow> (prisma_error + Table) \<times> store"
where
  "table_update st where_id data =
     (case check_Int where_id of
        Inl e \<Rightarrow> (Inl e, st)
      | Inr i \<Rightarrow>
     (case check_key check_String (upd_name data) of
        Inl e \<Rightarrow> (Inl e, st)
      | Inr n \<Rightarrow>
     (case check_key check_Int_value (upd_capacity data) of
        Inl e \<Rightarrow> (Inl e, st)
      | Inr c \<Rightarrow>
     (case check_key check_Boolean (upd_isAvailable data) of
        Inl e \<Rightarrow> (Inl e, st)
      | Inr a \<Rightarrow>
     (case find (\<lambda>t. t_id t = i) (tables st) of
        None \<Rightarrow> (Inl P2025, st)
      | Some t \<Rightarrow>
          (Inr (set_Table n c a t),
           st\<lparr>tables := map (\<lambda>x. if t_id x = i then set_Table n c a x else x)
                              (tables st)\<rparr>))))))"

text \<open>The \<^verbatim>\<open>data\<close> of \<^verbatim>\<open>prisma.reservation.update\<close>, as the handlers build it:
  \<^verbatim>\<open>date\<close> is \<^verbatim>\<open>undefined\<close> (\<open>None\<close>) or a Date, \<^verbatim>\<open>people\<close> is
  \<^verbatim>\<open>undefined\<close> (\<open>None\<close>) or a number, \<^verbatim>\<open>time\<close> and \<^verbatim>\<open>status\<close> are whatever the
  body holds.\<close>

record reservation_updates =
  upd_date :: "int option option"
  upd_time :: jsval
  upd_people :: "int option option"
  upd_status :: jsval

definition set_Reservation ::
  "int option \<Rightarrow> string option \<Rightarrow> int option \<Rightarrow> string option \<Rightarrow> Reservation \<Rightarrow> Reservation"
where
  "set_Reservation d tm p s r =
     r\<lparr>date := (case d of None \<Rightarrow> date r | Some x \<Rightarrow> x),
       time := (case tm of None \<Rightarrow> time r | Some x \<Rightarrow> x),
       people := (case p of None \<Rightarrow> people r | Some x \<Rightarrow> x),
       status := (case s of None \<Rightarrow> status r | Some x \<Rightarrow> x)\<rparr>"

text \<open>\<^verbatim>\<open>prisma.reservation.update({ where: { id }, data, include })\<close>\<close>

definition reservation_update ::
  "store \<Rightarrow> int option \<Rightarrow> reservation_updates \<Rightarrow> string list \<Rightarrow> (prisma_error + found) \<times> store"
where
  "reservation_update st where_id data inc =
     (if \<not> include_ok inc then (Inl PrismaClientValidationError, st)
      else case check_Int where_id of
        Inl e \<Rightarrow> (Inl e, st)
      | Inr i \<Rightarrow>
     (case check_opt_DateTime (upd_date data) of
        Inl e \<Rightarrow> (Inl e, st)
      | Inr d \<Rightarrow>
     (case check_opt_String (upd_time data) of
        Inl e \<Rightarrow> (Inl e, st)
      | Inr tm \<Rightarrow>
     (case check_opt_Int (upd_people data) of
        Inl e \<Rightarrow> (Inl e, st)
      | Inr p \<Rightarrow>
     (case check_opt_String (upd_status data) of
        Inl e \<Rightarrow> (Inl e, st)
      | Inr s \<Rightarrow>
     (case find (\<lambda>r. r_id r = i) (reservations st) of
        None \<Rightarrow> (Inl P2025, st)
      | Some r \<Rightarrow>
          (let st1 = st\<lparr>reservations :=
                          map (\<lambda>x. if r_id x = i then set_Reservation d tm p s x else x)
                              (reservations st)\<rparr>
           in (Inr (with_relations st1 inc (set_Reservation d tm p s r)), st1))))))))"

text \<open>\<^verbatim>\<open>prisma.reservation.delete({ where: { id } })\<close>\<close>

definition reservation_delete ::
  "store \<Rightarrow> int option \<Rightarrow> (prisma_error + Reservation) \<times> store"
where
  "reservation_delete st where_id =
     (case check_Int where_id of
        Inl e \<Rightarrow> (Inl e, st)
      | Inr i \<Rightarrow>
     (case find (\<lambda>r. r_id r = i) (reservations st) of
        None \<Rightarrow> (Inl P2025, st)
      | Some r \<Rightarrow>
          (Inr r, st\<lparr>reservations := filter (\<lambda>x. r_id x \<noteq> i) (reservations st)\<rparr>)))"

text \<open>The \<^verbatim>\<open>data\<close> of \<^verbatim>\<open>prisma.user.update\<close>.\<close>

record user_updates =
  upd_username :: "jsval option"
  upd_email :: "jsval option"
  upd_password :: "jsval option"
  upd_isAdmin :: "jsval option"

definition set_User ::
  "string option \<Rightarrow> string option \<Rightarrow> string option \<Rightarrow> bool option \<Rightarrow> User \<Rightarrow> User"
where
  "set_User n e p a u =
     u\<lparr>username := (case n of None \<Rightarrow> username u | Some x \<Rightarrow> x),
       email := (case e of None \<Rightarrow> email u | Some x \<Rightarrow> x),
       password := (case p of None \<Rightarrow> password u | Some x \<Rightarrow> x),
       isAdmin := (case a of None \<Rightarrow> isAdmin u | Some x \<Rightarrow> x)\<rparr>"

text \<open>\<^verbatim>\<open>prisma.user.update({ where: { id }, data })\<close>; \<^verbatim>\<open>email\<close> is unique.\<close>

definition user_update ::
  "store \<Rightarrow> int option \<Rightarrow> user_updates \<Rightarrow> (prisma_error + User) \<times> store"
where
  "user_update st where_id data =
     (case check_Int where_id of
        Inl e \<Rightarrow> (Inl e, st)
      | Inr i \<Rightarrow>
     (case check_key check_String (upd_username data) of
        Inl e \<Rightarrow> (Inl e, st)
      | Inr n \<Rightarrow>
     (case check_key check_String (upd_email data) of
        Inl e \<Rightarrow> (Inl e, st)
      | Inr m \<Rightarrow>
     (case check_key check_String (upd_password data) of
        Inl e \<Rightarrow> (Inl e, st)
      | Inr p \<Rightarrow>
     (case check_key check_Boolean (upd_isAdmin data) of
        Inl e \<Rightarrow> (Inl e, st)
      | Inr a \<Rightarrow>
     (case find (\<lambda>u. u_id u = i) (users st) of
        None \<Rightarrow> (Inl P2025, st)
      | Some u \<Rightarrow>
          if (\<exists>x \<in> set (users st). u_id x \<noteq> i \<and> Some (email x) = m)
          then (Inl P2002, st)
          else (Inr (set_User n m p a u),
                st\<lparr>users := map (\<lambda>x. if u_id x = i then set_User n m p a x else x)
                                  (users st)\<rparr>)))))))"

section \<open>The route handlers\<close>

text \<open>
  A handler either sends a reply (\<^verbatim>\<open>res.status(n).json(x)\<close>, \<^verbatim>\<open>res.json(x)\<close>,
  \<^verbatim>\<open>res.status(204).send()\<close>) or passes an error to \<^verbatim>\<open>next\<close>: one it made
  itself, with a \<^verbatim>\<open>status\<close> and a message, or one thrown by the Prisma client. The
  error middleware of \<^verbatim>\<open>server.js\<close> answers with \<^verbatim>\<open>err.status || 500\<close>.
\<close>

datatype error = HttpError nat string | PrismaError prisma_error

datatype json = ReservationJson found | TableJson Table | UserJson User | NoBody

datatype reply = Reply nat json

fun http_status :: "error + reply \<Rightarrow> nat" where
  "http_status (Inl (HttpError n msg)) = (if n = 0 then 500 else n)"
| "http_status (Inl (PrismaError e)) = 500"
| "http_status (Inr (Reply n j)) = n"

text \<open>\<^verbatim>\<open>if (reservation.tableId)\<close>: null and 0 are falsy.\<close>

definition tableId_truthy :: "int option \<Rightarrow> bool" where
  "tableId_truthy v = (case v of None \<Rightarrow> False | Some n \<Rightarrow> n \<noteq> 0)"

subsection \<open>\<^verbatim>\<open>routes/reservations.js\<close>\<close>

text \<open>\<^verbatim>\<open>router.post('/')\<close>\<close>

definition post_reservations :: "engine \<Rightarrow> store \<Rightarrow> body \<Rightarrow> (error + reply) \<times> store" where
  "post_reservations E st b =
     (if \<not> truthy (b ''date'') \<or> \<not> truthy (b ''time'') \<or> \<not> truthy (b ''people'')
         \<or> js_le_zero E (b ''people'') \<or> \<not> truthy (b ''userId'')
      then (Inl (HttpError 400
                  ''Date, time, people (positive number), and userId are required''), st)
      else case table_findFirst st (parseInt E (b ''people'')) of
        Inl e \<Rightarrow> (Inl (PrismaError e), st)
      | Inr None \<Rightarrow> (Inl (HttpError 400 ''No available table for this party size''), st)
      | Inr (Some table) \<Rightarrow>
     (case reservation_findFirst st (t_id table) (new_Date E (b ''date'')) (b ''time'')
             [''booked'', ''seated''] of
        Inl e \<Rightarrow> (Inl (PrismaError e), st)
      | Inr (Some conflictingReservation) \<Rightarrow>
          (Inl (HttpError 400 ''Table is already reserved for this time''), st)
      | Inr None \<Rightarrow>
     (case reservation_create st (new_Date E (b ''date'')) (b ''time'')
             (parseInt E (b ''people'')) ''booked'' (parseInt E (b ''userId'')) (t_id table)
             [''user'', ''table''] of
        (Inl e, st1) \<Rightarrow> (Inl (PrismaError e), st1)
      | (Inr reservation, st1) \<Rightarrow>
     (case table_update st1 (Some (t_id table))
             (no_table_updates\<lparr>upd_isAvailable := Some (JBool False)\<rparr>) of
        (Inl e, st2) \<Rightarrow> (Inl (PrismaError e), st2)
      | (Inr updatedTable, st2) \<Rightarrow>
          (Inr (Reply 201 (ReservationJson reservation)), st2)))))"

text \<open>\<^verbatim>\<open>router.get('/:id')\<close>; the route parameter \<^verbatim>\<open>req.params.id\<close> is a string.\<close>

definition get_reservation :: "store \<Rightarrow> string \<Rightarrow> (error + reply) \<times> store" where
  "get_reservation st id_param =
     (case reservation_findUnique st (parseInt_string id_param) [''user'', ''table''] of
        Inl e \<Rightarrow> (Inl (PrismaError e), st)
      | Inr None \<Rightarrow> (Inl (HttpError 404 ''Reservation not found''), st)
      | Inr (Some reservation) \<Rightarrow> (Inr (Reply 200 (ReservationJson reservation)), st))"

text \<open>\<^verbatim>\<open>router.put('/:id')\<close>\<close>

definition put_reservation ::
  "engine \<Rightarrow> store \<Rightarrow> string \<Rightarrow> body \<Rightarrow> (error + reply) \<times> store"
where
  "put_reservation E st id_param b =
     (case reservation_update st (parseInt_string id_param)
             \<lparr>upd_date = (if truthy (b ''date'') then Some (new_Date E (b ''date'')) else None),
              upd_time = b ''time'',
              upd_people = (if truthy (b ''people'') then Some (parseInt E (b ''people''))
                            else None),
              upd_status = b ''status''\<rparr>
             [''user'', ''table''] of
        (Inr reservation, st1) \<Rightarrow> (Inr (Reply 200 (ReservationJson reservation)), st1)
      | (Inl e, st1) \<Rightarrow>
          if e = P2025 then (Inl (HttpError 404 ''Reservation not found''), st1)
          else (Inl (PrismaError e), st1))"

text \<open>\<^verbatim>\<open>router.put('/:id/cancel')\<close>\<close>

definition put_reservation_cancel :: "store \<Rightarrow> string \<Rightarrow> (error + reply) \<times> store" where
  "put_reservation_cancel st id_param =
     (case reservation_findUnique st (parseInt_string id_param) [] of
        Inl e \<Rightarrow> (Inl (PrismaError e), st)
      | Inr None \<Rightarrow> (Inl (HttpError 404 ''Reservation not found''), st)
      | Inr (Some reservation) \<Rightarrow>
     (case reservation_update st (parseInt_string id_param)
             \<lparr>upd_date = None, upd_time = JUndefined, upd_people = None,
              upd_status = JStr ''cancelled''\<rparr>
             [''user'', ''table''] of
        (Inl e, st1) \<Rightarrow> (Inl (PrismaError e), st1)
      | (Inr updatedReservation, st1) \<Rightarrow>
          if tableId_truthy (tableId (fst reservation))
          then (case table_update st1 (tableId (fst reservation))
                       (no_table_updates\<lparr>upd_isAvailable := Some (JBool True)\<rparr>) of
                  (Inl e, st2) \<Rightarrow> (Inl (PrismaError e), st2)
                | (Inr t, st2) \<Rightarrow> (Inr (Reply 200 (ReservationJson updatedReservation)), st2))
          else (Inr (Reply 200 (ReservationJson updatedReservation)), st1)))"

text \<open>\<^verbatim>\<open>router.delete('/:id')\<close>\<close>

definition delete_reservation :: "store \<Rightarrow> string \<Rightarrow> (error + reply) \<times> store" where
  "delete_reservation st id_param =
     (case reservation_findUnique st (parseInt_string id_param) [] of
        Inl e \<Rightarrow> (Inl (PrismaError e), st)
      | Inr None \<Rightarrow> (Inl (HttpError 404 ''Reservation not found''), st)
      | Inr (Some reservation) \<Rightarrow>
     (case reservation_delete st (parseInt_string id_param) of
        (Inl e, st1) \<Rightarrow> (Inl (PrismaError e), st1)
      | (Inr deleted, st1) \<Rightarrow>
          if tableId_truthy (tableId (fst reservation))
          then (case table_update st1 (tableId (fst reservation))
                       (no_table_updates\<lparr>upd_isAvailable := Some (JBool True)\<rparr>) of
                  (Inl e, st2) \<Rightarrow> (Inl (PrismaError e), st2)
                | (Inr t, st2) \<Rightarrow> (Inr (Reply 204 NoBody), st2))
          else (Inr (Reply 204 NoBody), st1)))"

subsection \<open>\<^verbatim>\<open>routes/tables.js\<close>\<close>

text \<open>
  \<^verbatim>\<open>router.patch('/:id')\<close>. The \<^verbatim>\<open>updates\<close> object gets a key for each field of
  the body that passes its test. \<^verbatim>\<open>capacity >= 1\<close> is evaluated only after
  \<^verbatim>\<open>Number.isInteger(capacity)\<close> has held, that is, on a number.
\<close>

definition ge_one :: "jsval \<Rightarrow> bool" where
  "ge_one v = (case v of JNum q \<Rightarrow> 1 \<le> q | _ \<Rightarrow> False)"

definition table_patch_updates :: "body \<Rightarrow> table_updates" where
  "table_patch_updates b =
     \<lparr>upd_name =
        (if truthy (b ''name'') \<and> typeof (b ''name'') = ''string''
         then Some (b ''name'') else None),
      upd_capacity =
        (if truthy (b ''capacity'') \<and> Number_isInteger (b ''capacity'') \<and> ge_one (b ''capacity'')
         then Some (b ''capacity'') else None),
      upd_isAvailable =
        (if b ''isAvailable'' \<noteq> JUndefined \<and> typeof (b ''isAvailable'') = ''boolean''
         then Some (b ''isAvailable'') else None)\<rparr>"

definition patch_table :: "store \<Rightarrow> string \<Rightarrow> body \<Rightarrow> (error + reply) \<times> store" where
  "patch_table st id_param b =
     (let updates = table_patch_updates b
      in if upd_name updates = None \<and> upd_capacity updates = None
            \<and> upd_isAvailable updates = None
         then (Inl (HttpError 400 ''No valid fields to update''), st)
         else case table_update st (parseInt_string id_param) updates of
                (Inr updatedTable, st1) \<Rightarrow> (Inr (Reply 200 (TableJson updatedTable)), st1)
              | (Inl e, st1) \<Rightarrow>
                  if e = P2025
                  then (Inl (HttpError 404 (''Table with id '' @ id_param @ '' not found'')), st1)
                  else (Inl (PrismaError e), st1))"

subsection \<open>\<^verbatim>\<open>routes/users.js\<close>\<close>

text \<open>\<^verbatim>\<open>router.patch('/:id')\<close>\<close>

definition user_patch_updates :: "body \<Rightarrow> user_updates" where
  "user_patch_updates b =
     \<lparr>upd_username = (if truthy (b ''username'') then Some (b ''username'') else None),
      upd_email = (if truthy (b ''email'') then Some (b ''email'') else None),
      upd_password = (if truthy (b ''password'') then Some (b ''password'') else None),
      upd_isAdmin = (if b ''isAdmin'' \<noteq> JUndefined then Some (b ''isAdmin'') else None)\<rparr>"

definition patch_user :: "store \<Rightarrow> string \<Rightarrow> body \<Rightarrow> (error + reply) \<times> store" where
  "patch_user st id_param b =
     (let updates = user_patch_updates b
      in if upd_username updates = None \<and> upd_email updates = None
            \<and> upd_password updates = None \<and> upd_isAdmin updates = None
         then (Inl (HttpError 400 ''No fields to update''), st)
         else case user_update st (parseInt_string id_param) updates of
                (Inr updateUser, st1) \<Rightarrow> (Inr (Reply 200 (UserJson updateUser)), st1)
              | (Inl e, st1) \<Rightarrow>
                  if e = P2025
                  then (Inl (HttpError 404 (''User with id '' @ id_param @ '' not found'')), st1)
                  else (Inl (PrismaError e), st1))"

section \<open>Sample requests and stores\<close>

text \<open>
  Concrete inputs on which the theorems below are evaluated. The engine parses the one date
  string the examples use (\<^verbatim>\<open>2025-06-15\<close> is 1749945600000 ms after the epoch); the
  examples never reach its other answers. \<open>sample_store\<close> and \<open>sample_body\<close> are the
  example of the specification: one user, table 1 with capacity 4 and available, no
  reservation, and a request for two people at 19:00.
\<close>

definition sample_engine :: engine where
  "sample_engine =
     \<lparr>Date_parse = (\<lambda>s. if s = ''2025-06-15'' then Some 1749945600000 else None),
      le_zero = (\<lambda>v. False),
      parseInt_other = (\<lambda>v. None),
      Date_other = (\<lambda>v. None)\<rparr>"

definition sample_store :: store where
  "sample_store =
     \<lparr>users = [\<lparr>u_id = 1, username = ''John'', email = ''john@example.com'',
                 password = ''secret'', isAdmin = False\<rparr>],
      tables = [\<lparr>t_id = 1, name = ''Table 1'', capacity = 4, isAvailable = True\<rparr>],
      reservations = [],
      reservation_seq = 0\<rparr>"

definition empty_body :: body where
  "empty_body = (\<lambda>k. JUndefined)"

definition sample_body :: body where
  "sample_body =
     empty_body(''date'' := JStr ''2025-06-15'', ''time'' := JStr ''19:00'',
                ''people'' := JNum 2, ''userId'' := JNum 1)"

definition cancel_body :: body where
  "cancel_body = empty_body(''status'' := JStr ''cancelled'')"

text \<open>A store with two reservations at the same date and time: reservation 1 is booked on
  table 1, which is marked unavailable; reservation 2, on table 2, was cancelled and the
  table is available again.\<close>

definition booked_store :: store where
  "booked_store =
     \<lparr>users = [\<lparr>u_id = 1, username = ''John'', email = ''john@example.com'',
                 password = ''secret'', isAdmin = False\<rparr>],
      tables = [\<lparr>t_id = 1, name = ''Table 1'', capacity = 4, isAvailable = False\<rparr>,
                \<lparr>t_id = 2, name = ''Table 2'', capacity = 2, isAvailable = True\<rparr>],
      reservations =
        [\<lparr>r_id = 1, date = 1749945600000, time = ''19:00'', people = 2, status = ''booked'',
          userId = 1, tableId = Some 1\<rparr>,
         \<lparr>r_id = 2, date = 1749945600000, time = ''19:00'', people = 2,
          status = ''cancelled'', userId = 1, tableId = Some 2\<rparr>],
      reservation_seq = 2\<rparr>"

text \<open>The same store, with reservation 2 seated at table 2 although the table is marked
  available (the flag can be set through \<^verbatim>\<open>PATCH /tables/:id\<close>).\<close>

definition conflict_store :: store where
  "conflict_store =
     booked_store\<lparr>reservations :=
        [\<lparr>r_id = 1, date = 1749945600000, time = ''19:00'', people = 2, status = ''booked'',
          userId = 1, tableId = Some 1\<rparr>,
         \<lparr>r_id = 2, date = 1749945600000, time = ''19:00'', people = 2, status = ''seated'',
          userId = 1, tableId = Some 2\<rparr>]\<rparr>"

text \<open>A table row after \<^verbatim>\<open>PATCH /tables/:id\<close> has written the fields of the body
  that are valid: a non-empty string \<^verbatim>\<open>name\<close>, an integer \<^verbatim>\<open>capacity\<close> of at
  least 1, a boolean \<^verbatim>\<open>isAvailable\<close>. Every other field keeps its value.\<close>

definition written_table :: "body \<Rightarrow> Table \<Rightarrow> Table" where
  "written_table b t =
     t\<lparr>name := (case b ''name'' of JStr s \<Rightarrow> if s = [] then name t else s | _ \<Rightarrow> name t),
       capacity := (case b ''capacity'' of
                      JNum q \<Rightarrow> if of_int \<lfloor>q\<rfloor> = q \<and> 1 \<le> q then \<lfloor>q\<rfloor> else capacity t
                    | _ \<Rightarrow> capacity t),
       isAvailable := (case b ''isAvailable'' of JBool a \<Rightarrow> a | _ \<Rightarrow> isAvailable t)\<rparr>"

section \<open>Properties of the JavaScript helpers\<close>

lemma parseInt_integer:
  assumes "is_Int n"
  shows "parseInt E (JNum (of_int n)) = Some n"
proof -
  have "\<bar>of_int n :: rat\<bar> < 10 ^ 21"
  proof -
    have "\<bar>n\<bar> \<le> 2147483648" using assms unfolding is_Int_def by linarith
    then have "(of_int \<bar>n\<bar> :: rat) \<le> of_int 2147483648" by (simp only: of_int_le_iff)
    then show ?thesis by simp
  qed
  moreover have "n \<noteq> 0 \<Longrightarrow> 1 / 10 ^ 6 \<le> \<bar>of_int n :: rat\<bar>"
  proof -
    assume "n \<noteq> 0"
    then have "1 \<le> \<bar>n\<bar>" by simp
    then have "(1 :: rat) \<le> of_int \<bar>n\<bar>" by (simp only: of_int_1_le_iff)
    then show ?thesis by simp
  qed
  ultimately have "prints_in_decimal (of_int n)"
    by (auto simp: prints_in_decimal_def)
  then show ?thesis by (simp add: js_trunc_def)
qed

lemma parseInt_string_1: "parseInt_string ''1'' = Some 1"
  by (simp add: parseInt_string_def strip_sign_def strip_prefix_def parse_digits_def
                digit_of_def is_white_space_def)

lemma parseInt_string_7: "parseInt_string ''7'' = Some 7"
  by (simp add: parseInt_string_def strip_sign_def strip_prefix_def parse_digits_def
                digit_of_def is_white_space_def)

lemma parseInt_string_examples:
  "parseInt_string ''12abc'' = Some 12 \<and> parseInt_string '' -0x1F'' = Some (- 31)
   \<and> parseInt_string ''abc'' = None \<and> parseInt_string ''0x'' = None
   \<and> parseInt_string [] = None"
  by (simp add: parseInt_string_def strip_sign_def strip_prefix_def parse_digits_def
                digit_of_def is_white_space_def)

lemma check_Int_Inr: "check_Int w = Inr i \<Longrightarrow> w = Some i"
  by (auto simp: check_Int_def split: option.splits if_splits)

lemma list_all2_map_same:
  "(\<And>x. x \<in> set xs \<Longrightarrow> P x (f x)) \<Longrightarrow> list_all2 P xs (map f xs)"
  by (induction xs) auto

section \<open>The relation named by the reservation handlers\<close>

text \<open>
  Every query of \<^verbatim>\<open>routes/reservations.js\<close> that asks for relations passes
  \<^verbatim>\<open>include: { user: true, table: true }\<close>. The schema names the relation
  \<^verbatim>\<open>User\<close>, so the client refuses each of these calls before it reaches the database:
  creating, updating and reading a reservation with its relations all fail, whatever the
  arguments and the store. The queries without \<^verbatim>\<open>include\<close> are not concerned.
\<close>

lemma include_user_table_rejected: "\<not> include_ok [''user'', ''table'']"
  by (simp add: include_ok_def Reservation_relations_def)

lemma include_nothing_ok: "include_ok []"
  by (simp add: include_ok_def)

lemma reservation_create_rejected:
  "reservation_create st dt tm ppl stat uid tid [''user'', ''table'']
     = (Inl PrismaClientValidationError, st)"
  by (simp add: reservation_create_def include_user_table_rejected)

lemma reservation_update_rejected:
  "reservation_update st w data [''user'', ''table''] = (Inl PrismaClientValidationError, st)"
  by (simp add: reservation_update_def include_user_table_rejected)

lemma reservation_findUnique_rejected:
  "reservation_findUnique st w [''user'', ''table''] = Inl PrismaClientValidationError"
  by (simp add: reservation_findUnique_def include_user_table_rejected)

text \<open>With the relations under their schema names the insert goes through: the row gets
  the next id and is returned with its user and its table.\<close>

lemma reservation_create_with_schema_relations:
  assumes "is_Int p" "is_Int u"
    and "find (\<lambda>x. u_id x = u) (users st) = Some usr"
    and "find (\<lambda>x. t_id x = tid) (tables st) = Some tbl"
  shows "reservation_create st (Some d) (JStr tm) (Some p) stat (Some u) tid [''User'', ''table'']
         = (Inr (\<lparr>r_id = reservation_seq st + 1, date = d, time = tm, people = p,
                   status = stat, userId = u, tableId = Some tid\<rparr>, Some usr, Some tbl),
            st\<lparr>reservation_seq := reservation_seq st + 1,
               reservations := reservations st @
                 [\<lparr>r_id = reservation_seq st + 1, date = d, time = tm, people = p,
                   status = stat, userId = u, tableId = Some tid\<rparr>]\<rparr>)"
  using assms
  by (simp add: reservation_create_def include_ok_def Reservation_relations_def
                check_DateTime_def check_String_def check_Int_def Let_def with_relations_def)

lemma reservation_update_status_with_schema_relations:
  assumes "is_Int i" "find (\<lambda>r. r_id r = i) (reservations st) = Some r"
  shows "snd (reservation_update st (Some i)
                \<lparr>upd_date = None, upd_time = JUndefined, upd_people = None,
                 upd_status = JStr s\<rparr> [''User'', ''table''])
         = st\<lparr>reservations := map (\<lambda>x. if r_id x = i then x\<lparr>status := s\<rparr> else x)
                                  (reservations st)\<rparr>"
  using assms
  by (simp add: reservation_update_def include_ok_def Reservation_relations_def check_Int_def
                check_opt_DateTime_def check_opt_String_def check_opt_Int_def Let_def
                set_Reservation_def)

lemma post_reservations_never_replies: "fst (post_reservations E st b) \<noteq> Inr r"
  by (simp add: post_reservations_def reservation_create_rejected
           split: sum.splits option.splits)

lemma post_reservations_store_unchanged: "snd (post_reservations E st b) = st"
  by (simp add: post_reservations_def reservation_create_rejected
           split: sum.splits option.splits)

lemma get_reservation_rejected:
  "get_reservation st id_param = (Inl (PrismaError PrismaClientValidationError), st)"
  by (simp add: get_reservation_def reservation_findUnique_rejected)

lemma put_reservation_rejected:
  "put_reservation E st id_param b = (Inl (PrismaError PrismaClientValidationError), st)"
  by (simp add: put_reservation_def reservation_update_rejected)

lemma reservation_findUnique_plain:
  "is_Int n \<Longrightarrow>
   reservation_findUnique st (Some n) []
     = Inr (map_option (with_relations st []) (find (\<lambda>r. r_id r = n) (reservations st)))"
  by (simp add: reservation_findUnique_def include_nothing_ok check_Int_def)

section \<open>Creating a reservation\<close>

text \<open>
  Claim C4 holds of the code for the values the check catches and fails for the others.
  When \<^verbatim>\<open>date\<close>, \<^verbatim>\<open>time\<close>, \<^verbatim>\<open>userId\<close> or \<^verbatim>\<open>people\<close> is falsy
  (missing, null, the empty string, 0, false), or \<^verbatim>\<open>people\<close> is a number that is not
  positive, \<^verbatim>\<open>POST /reservations\<close> fails with the 400 validation error and the store
  is the one it started from. But the check is \<^verbatim>\<open>!people || people <= 0\<close>, not the
  test for a positive number that its message states: a value of \<^verbatim>\<open>people\<close> that is
  truthy, does not compare \<^verbatim>\<open><= 0\<close> and is read as NaN by \<^verbatim>\<open>parseInt\<close>
  (\<^verbatim>\<open>true\<close>, say) passes it, and the request fails only in
  \<^verbatim>\<open>prisma.table.findFirst\<close>, with an error that has no status: a 500.
\<close>

theorem post_reservations_validation_gap:
  "((\<not> truthy (b ''date'') \<or> \<not> truthy (b ''time'') \<or> \<not> truthy (b ''userId'')
       \<or> \<not> truthy (b ''people'') \<or> (\<exists>q. b ''people'' = JNum q \<and> q \<le> 0))
     \<longrightarrow> post_reservations E st b =
           (Inl (HttpError 400
                  ''Date, time, people (positive number), and userId are required''), st))
   \<and> (truthy (b ''date'') \<and> truthy (b ''time'') \<and> truthy (b ''userId'')
       \<and> truthy (b ''people'') \<and> \<not> js_le_zero E (b ''people'')
       \<and> parseInt E (b ''people'') = None
     \<longrightarrow> post_reservations E st b = (Inl (PrismaError PrismaClientValidationError), st))"
proof (rule conjI[OF impI impI])
  assume "\<not> truthy (b ''date'') \<or> \<not> truthy (b ''time'') \<or> \<not> truthy (b ''userId'')
       \<or> \<not> truthy (b ''people'') \<or> (\<exists>q. b ''people'' = JNum q \<and> q \<le> 0)"
  then show "post_reservations E st b =
           (Inl (HttpError 400
                  ''Date, time, people (positive number), and userId are required''), st)"
    unfolding post_reservations_def by auto
next
  assume "truthy (b ''date'') \<and> truthy (b ''time'') \<and> truthy (b ''userId'')
       \<and> truthy (b ''people'') \<and> \<not> js_le_zero E (b ''people'')
       \<and> parseInt E (b ''people'') = None"
  then show "post_reservations E st b = (Inl (PrismaError PrismaClientValidationError), st)"
    by (simp add: post_reservations_def table_findFirst_def check_Int_def)
qed

theorem post_reservations_validation_gap_witness:
  "post_reservations sample_engine sample_store (sample_body(''people'' := JNum (- 1)))
     = (Inl (HttpError 400 ''Date, time, people (positive number), and userId are required''),
        sample_store)
   \<and> post_reservations sample_engine sample_store (sample_body(''people'' := JStr []))
     = (Inl (HttpError 400 ''Date, time, people (positive number), and userId are required''),
        sample_store)
   \<and> post_reservations sample_engine sample_store (sample_body(''people'' := JBool False))
     = (Inl (HttpError 400 ''Date, time, people (positive number), and userId are required''),
        sample_store)
   \<and> post_reservations sample_engine sample_store (sample_body(''date'' := JUndefined))
     = (Inl (HttpError 400 ''Date, time, people (positive number), and userId are required''),
        sample_store)
   \<and> post_reservations sample_engine sample_store (sample_body(''people'' := JBool True))
     = (Inl (PrismaError PrismaClientValidationError), sample_store)
   \<and> http_status (fst (post_reservations sample_engine sample_store
                         (sample_body(''people'' := JBool True)))) = 500"
proof -
  have "post_reservations sample_engine sample_store (sample_body(''people'' := JBool True))
     = (Inl (PrismaError PrismaClientValidationError), sample_store)"
    using post_reservations_validation_gap
            [of "sample_body(''people'' := JBool True)" sample_engine sample_store]
    by (simp add: sample_body_def empty_body_def)
  moreover from this
  have "http_status (fst (post_reservations sample_engine sample_store
                         (sample_body(''people'' := JBool True)))) = 500"
    by simp
  moreover
  have "post_reservations sample_engine sample_store (sample_body(''people'' := JNum (- 1)))
     = (Inl (HttpError 400 ''Date, time, people (positive number), and userId are required''),
        sample_store)"
    using post_reservations_validation_gap
            [of "sample_body(''people'' := JNum (- 1))" sample_engine sample_store]
    by (simp add: sample_body_def empty_body_def)
  moreover
  have "post_reservations sample_engine sample_store (sample_body(''people'' := JStr []))
     = (Inl (HttpError 400 ''Date, time, people (positive number), and userId are required''),
        sample_store)"
    using post_reservations_validation_gap
            [of "sample_body(''people'' := JStr [])" sample_engine sample_store]
    by (simp add: sample_body_def empty_body_def)
  moreover
  have "post_reservations sample_engine sample_store (sample_body(''people'' := JBool False))
     = (Inl (HttpError 400 ''Date, time, people (positive number), and userId are required''),
        sample_store)"
    using post_reservations_validation_gap
            [of "sample_body(''people'' := JBool False)" sample_engine sample_store]
    by (simp add: sample_body_def empty_body_def)
  moreover
  have "post_reservations sample_engine sample_store (sample_body(''date'' := JUndefined))
     = (Inl (HttpError 400 ''Date, time, people (positive number), and userId are required''),
        sample_store)"
    using post_reservations_validation_gap
            [of "sample_body(''date'' := JUndefined)" sample_engine sample_store]
    by (simp add: sample_body_def empty_body_def)
  ultimately show ?thesis by (intro conjI)
qed

text \<open>
  Claim C3, as amended. The handler does not compare capacities with \<^verbatim>\<open>people\<close> but
  with \<^verbatim>\<open>parseInt(people)\<close>. For a request that passes validation and whose
  \<^verbatim>\<open>people\<close> is read by \<^verbatim>\<open>parseInt\<close> as an integer \<open>n\<close> that fits the
  \<^verbatim>\<open>Int\<close> column: when no table of the store has both capacity at least \<open>n\<close> and
  \<^verbatim>\<open>isAvailable = true\<close>, the call fails with the 400 error
  \<^verbatim>\<open>No available table for this party size\<close> and the store is unchanged.
\<close>

theorem post_reservations_no_table_available:
  assumes "truthy (b ''date'')" "truthy (b ''time'')" "truthy (b ''userId'')"
    and "truthy (b ''people'')" "\<not> js_le_zero E (b ''people'')"
    and "parseInt E (b ''people'') = Some n" "is_Int n"
    and "\<forall>t \<in> set (tables st). \<not> (n \<le> capacity t \<and> isAvailable t)"
  shows "post_reservations E st b =
           (Inl (HttpError 400 ''No available table for this party size''), st)"
proof -
  have "find (\<lambda>t. n \<le> capacity t \<and> isAvailable t) (tables st) = None"
    using assms(8) by (simp add: find_None_iff)
  then have "table_findFirst st (parseInt E (b ''people'')) = Inr None"
    using assms(6,7) by (simp add: table_findFirst_def check_Int_def)
  then show ?thesis
    using assms(1-5) by (simp add: post_reservations_def)
qed

theorem post_reservations_no_table_available_witness:
  "post_reservations sample_engine sample_store (sample_body(''people'' := JNum 5))
     = (Inl (HttpError 400 ''No available table for this party size''), sample_store)
   \<and> post_reservations sample_engine sample_store (sample_body(''people'' := JNum (11 / 2)))
     = (Inl (HttpError 400 ''No available table for this party size''), sample_store)
   \<and> http_status (Inl (HttpError 400 ''No available table for this party size'')) = 400"
proof -
  have whole: "parseInt sample_engine (JNum 5) = Some 5"
    by (simp add: prints_in_decimal_def js_trunc_def)
  have fraction: "parseInt sample_engine (JNum (11 / 2)) = Some 5"
    by (simp add: prints_in_decimal_def js_trunc_def floor_eq_iff)
  have "post_reservations sample_engine sample_store (sample_body(''people'' := JNum 5))
     = (Inl (HttpError 400 ''No available table for this party size''), sample_store)"
    using post_reservations_no_table_available
            [of "sample_body(''people'' := JNum 5)" sample_engine 5 sample_store] whole
    by (simp add: sample_body_def empty_body_def sample_store_def is_Int_def)
  moreover
  have "post_reservations sample_engine sample_store (sample_body(''people'' := JNum (11 / 2)))
     = (Inl (HttpError 400 ''No available table for this party size''), sample_store)"
    using post_reservations_no_table_available
            [of "sample_body(''people'' := JNum (11 / 2))" sample_engine 5 sample_store] fraction
    by (simp add: sample_body_def empty_body_def sample_store_def is_Int_def)
  ultimately show ?thesis by simp
qed

text \<open>
  Claim C3 as stated fails: a party of 4.5 passes the check (it is positive), no table of
  the sample store has capacity at least 4.5, and yet the handler asks for a capacity of at
  least \<^verbatim>\<open>parseInt(4.5) = 4\<close>, selects table 1 and does not answer that no table is
  available.
\<close>

theorem post_reservations_fraction_selects_table:
  "map capacity (tables sample_store) = [4]
   \<and> table_findFirst sample_store (parseInt sample_engine (JNum (9 / 2)))
       = Inr (Some \<lparr>t_id = 1, name = ''Table 1'', capacity = 4, isAvailable = True\<rparr>)
   \<and> fst (post_reservations sample_engine sample_store (sample_body(''people'' := JNum (9 / 2))))
       \<noteq> Inl (HttpError 400 ''No available table for this party size'')"
  by (simp add: post_reservations_def sample_body_def empty_body_def sample_store_def
                sample_engine_def table_findFirst_def reservation_findFirst_def check_Int_def
                check_DateTime_def check_String_def is_Int_def prints_in_decimal_def
                js_trunc_def reservation_create_rejected)

text \<open>Once a candidate table is selected, the outcome is decided by the conflict query:
  a match is a conflict; without one the handler goes on to
  \<^verbatim>\<open>prisma.reservation.create\<close>, which is refused for its \<^verbatim>\<open>include\<close>.\<close>

lemma post_reservations_candidate:
  assumes "truthy (b ''date'')" "truthy (b ''people'')" "\<not> js_le_zero E (b ''people'')"
    and "truthy (b ''userId'')"
    and "table_findFirst st (parseInt E (b ''people'')) = Inr (Some table)"
    and "new_Date E (b ''date'') = Some d" "b ''time'' = JStr tm" "tm \<noteq> []"
  shows "post_reservations E st b =
           (case find (\<lambda>r. tableId r = Some (t_id table) \<and> date r = d \<and> time r = tm
                             \<and> status r \<in> set [''booked'', ''seated'']) (reservations st) of
              Some r \<Rightarrow> (Inl (HttpError 400 ''Table is already reserved for this time''), st)
            | None \<Rightarrow> (Inl (PrismaError PrismaClientValidationError), st))"
  using assms
  by (simp add: post_reservations_def reservation_findFirst_def check_DateTime_def
                check_String_def reservation_create_rejected
           split: option.splits)

lemma post_reservations_candidate_integer:
  assumes "truthy (b ''date'')" "truthy (b ''userId'')"
    and "b ''people'' = JNum (of_int n)" "0 < n" "is_Int n"
    and "find (\<lambda>t. n \<le> capacity t \<and> isAvailable t) (tables st) = Some table"
    and "new_Date E (b ''date'') = Some d" "b ''time'' = JStr tm" "tm \<noteq> []"
  shows "post_reservations E st b =
           (case find (\<lambda>r. tableId r = Some (t_id table) \<and> date r = d \<and> time r = tm
                             \<and> status r \<in> set [''booked'', ''seated'']) (reservations st) of
              Some r \<Rightarrow> (Inl (HttpError 400 ''Table is already reserved for this time''), st)
            | None \<Rightarrow> (Inl (PrismaError PrismaClientValidationError), st))"
proof -
  have "table_findFirst st (parseInt E (b ''people'')) = Inr (Some table)"
    using assms(3,5,6) parseInt_integer[OF assms(5), of E]
    by (simp add: table_findFirst_def check_Int_def)
  with assms show ?thesis
    by (intro post_reservations_candidate) simp_all
qed

text \<open>
  Claim C2 holds of the code in its first half only. Take a request that passes validation,
  whose date is a valid Date and whose time is a string, and let \<open>table\<close> be the candidate
  the table query selects. If the store holds a reservation of that table with the same
  date, the very same time string and status \<^verbatim>\<open>booked\<close> or \<^verbatim>\<open>seated\<close>, the call
  fails with the 400 error \<^verbatim>\<open>Table is already reserved for this time\<close> and the store
  is unchanged, as claimed. If every reservation of that table at that date and time has
  another status (\<^verbatim>\<open>cancelled\<close>, say), the conflict query finds nothing, but no
  reservation is created: the handler goes on to \<^verbatim>\<open>prisma.reservation.create\<close>, which
  is refused for its \<^verbatim>\<open>include\<close>, and the response is a 500 with the store unchanged.
\<close>

theorem post_reservations_table_conflict:
  assumes "truthy (b ''date'')" "truthy (b ''people'')" "\<not> js_le_zero E (b ''people'')"
    and "truthy (b ''userId'')"
    and "table_findFirst st (parseInt E (b ''people'')) = Inr (Some table)"
    and "new_Date E (b ''date'') = Some d" "b ''time'' = JStr tm" "tm \<noteq> []"
  shows "((\<exists>r \<in> set (reservations st).
             tableId r = Some (t_id table) \<and> date r = d \<and> time r = tm
             \<and> (status r = ''booked'' \<or> status r = ''seated''))
          \<longrightarrow> post_reservations E st b =
                (Inl (HttpError 400 ''Table is already reserved for this time''), st))
       \<and> ((\<forall>r \<in> set (reservations st).
             tableId r = Some (t_id table) \<and> date r = d \<and> time r = tm
             \<longrightarrow> status r \<noteq> ''booked'' \<and> status r \<noteq> ''seated'')
          \<longrightarrow> post_reservations E st b =
                (Inl (PrismaError PrismaClientValidationError), st))"
proof -
  let ?P = "\<lambda>r. tableId r = Some (t_id table) \<and> date r = d \<and> time r = tm
                 \<and> status r \<in> set [''booked'', ''seated'']"
  have eq: "post_reservations E st b =
           (case find ?P (reservations st) of
              Some r \<Rightarrow> (Inl (HttpError 400 ''Table is already reserved for this time''), st)
            | None \<Rightarrow> (Inl (PrismaError PrismaClientValidationError), st))"
    using assms by (rule post_reservations_candidate)
  show ?thesis
  proof (rule conjI[OF impI impI])
    assume "\<exists>r \<in> set (reservations st).
             tableId r = Some (t_id table) \<and> date r = d \<and> time r = tm
             \<and> (status r = ''booked'' \<or> status r = ''seated'')"
    then have "find ?P (reservations st) \<noteq> None"
      by (auto simp: find_None_iff)
    then show "post_reservations E st b =
                (Inl (HttpError 400 ''Table is already reserved for this time''), st)"
      using eq by (auto split: option.splits)
  next
    assume "\<forall>r \<in> set (reservations st).
             tableId r = Some (t_id table) \<and> date r = d \<and> time r = tm
             \<longrightarrow> status r \<noteq> ''booked'' \<and> status r \<noteq> ''seated''"
    then have "find ?P (reservations st) = None"
      by (auto simp: find_None_iff)
    then show "post_reservations E st b =
                (Inl (PrismaError PrismaClientValidationError), st)"
      using eq by simp
  qed
qed

theorem post_reservations_table_conflict_witness:
  "post_reservations sample_engine conflict_store sample_body
     = (Inl (HttpError 400 ''Table is already reserved for this time''), conflict_store)
   \<and> post_reservations sample_engine conflict_store (sample_body(''people'' := JStr ''2''))
     = (Inl (HttpError 400 ''Table is already reserved for this time''), conflict_store)
   \<and> post_reservations sample_engine booked_store sample_body
     = (Inl (PrismaError PrismaClientValidationError), booked_store)
   \<and> http_status (fst (post_reservations sample_engine booked_store sample_body)) = 500
   \<and> map status (reservations booked_store) = [''booked'', ''cancelled'']
   \<and> post_reservations sample_engine conflict_store (sample_body(''time'' := JStr ''7:00 PM''))
     = (Inl (PrismaError PrismaClientValidationError), conflict_store)"
proof -
  let ?t2 = "\<lparr>t_id = 2, name = ''Table 2'', capacity = 2, isAvailable = True\<rparr>"
  have two: "parseInt_string ''2'' = Some 2"
    by (simp add: parseInt_string_def strip_sign_def strip_prefix_def parse_digits_def
                  digit_of_def is_white_space_def)
  have a: "post_reservations sample_engine conflict_store sample_body
     = (Inl (HttpError 400 ''Table is already reserved for this time''), conflict_store)"
    using post_reservations_table_conflict[of sample_body sample_engine conflict_store ?t2
            1749945600000 "''19:00''"]
    by (simp add: sample_body_def empty_body_def conflict_store_def booked_store_def
                  sample_engine_def is_Int_def table_findFirst_def check_Int_def
                  prints_in_decimal_def js_trunc_def)
  have b: "post_reservations sample_engine conflict_store (sample_body(''people'' := JStr ''2''))
     = (Inl (HttpError 400 ''Table is already reserved for this time''), conflict_store)"
    using post_reservations_table_conflict[of "sample_body(''people'' := JStr ''2'')"
            sample_engine conflict_store ?t2 1749945600000 "''19:00''"]
    by (simp add: sample_body_def empty_body_def conflict_store_def booked_store_def
                  sample_engine_def is_Int_def table_findFirst_def check_Int_def two)
  have c: "post_reservations sample_engine booked_store sample_body
     = (Inl (PrismaError PrismaClientValidationError), booked_store)"
    using post_reservations_table_conflict[of sample_body sample_engine booked_store ?t2
            1749945600000 "''19:00''"]
    by (simp add: sample_body_def empty_body_def booked_store_def
                  sample_engine_def is_Int_def table_findFirst_def check_Int_def
                  prints_in_decimal_def js_trunc_def)
  have d: "post_reservations sample_engine conflict_store (sample_body(''time'' := JStr ''7:00 PM''))
     = (Inl (PrismaError PrismaClientValidationError), conflict_store)"
    using post_reservations_table_conflict[of "sample_body(''time'' := JStr ''7:00 PM'')"
            sample_engine conflict_store ?t2 1749945600000 "''7:00 PM''"]
    by (simp add: sample_body_def empty_body_def conflict_store_def booked_store_def
                  sample_engine_def is_Int_def table_findFirst_def check_Int_def
                  prints_in_decimal_def js_trunc_def)
  from c have "http_status (fst (post_reservations sample_engine booked_store sample_body)) = 500"
    by simp
  moreover have "map status (reservations booked_store) = [''booked'', ''cancelled'']"
    by (simp add: booked_store_def)
  ultimately show ?thesis using a b c d by (intro conjI)
qed

text \<open>
  Claim C1 does not hold of the code. For a request that passes validation with a positive
  integer party size, a valid date and a time string, in a store where a candidate table
  exists and has no active reservation at that date and time, the handler reaches
  \<^verbatim>\<open>prisma.reservation.create\<close> and the call is refused, because its \<^verbatim>\<open>include\<close>
  names the relation \<^verbatim>\<open>user\<close> where the schema declares \<^verbatim>\<open>User\<close>. The error
  carries no status, so the response is a 500; no reservation is created and the table stays
  available.
\<close>

theorem post_reservations_create_rejected:
  assumes "truthy (b ''date'')" "truthy (b ''userId'')"
    and "b ''people'' = JNum (of_int n)" "0 < n" "is_Int n"
    and "find (\<lambda>t. n \<le> capacity t \<and> isAvailable t) (tables st) = Some table"
    and "new_Date E (b ''date'') = Some d" "b ''time'' = JStr tm" "tm \<noteq> []"
    and "\<forall>r \<in> set (reservations st).
           \<not> (tableId r = Some (t_id table) \<and> date r = d \<and> time r = tm
              \<and> (status r = ''booked'' \<or> status r = ''seated''))"
  shows "post_reservations E st b = (Inl (PrismaError PrismaClientValidationError), st)"
proof -
  let ?P = "\<lambda>r. tableId r = Some (t_id table) \<and> date r = d \<and> time r = tm
                 \<and> status r \<in> set [''booked'', ''seated'']"
  have "find ?P (reservations st) = None"
    using assms(10) by (auto simp: find_None_iff)
  moreover have "post_reservations E st b =
           (case find ?P (reservations st) of
              Some r \<Rightarrow> (Inl (HttpError 400 ''Table is already reserved for this time''), st)
            | None \<Rightarrow> (Inl (PrismaError PrismaClientValidationError), st))"
    using assms(1-9) by (rule post_reservations_candidate_integer)
  ultimately show ?thesis by simp
qed

theorem post_reservations_create_rejected_witness:
  "post_reservations sample_engine sample_store sample_body
     = (Inl (PrismaError PrismaClientValidationError), sample_store)
   \<and> http_status (fst (post_reservations sample_engine sample_store sample_body)) = 500"
proof -
  have "post_reservations sample_engine sample_store sample_body
          = (Inl (PrismaError PrismaClientValidationError), sample_store)"
    using post_reservations_create_rejected[of sample_body 2 sample_store
            "\<lparr>t_id = 1, name = ''Table 1'', capacity = 4, isAvailable = True\<rparr>"
            sample_engine 1749945600000 "''19:00''"]
    by (simp add: sample_body_def empty_body_def sample_store_def sample_engine_def is_Int_def)
  then show ?thesis by simp
qed

section \<open>Cancelling and deleting a reservation\<close>

lemma put_reservation_cancel_not_found:
  assumes "parseInt_string id_param = Some n" "is_Int n"
    and "\<forall>r \<in> set (reservations st). r_id r \<noteq> n"
  shows "put_reservation_cancel st id_param = (Inl (HttpError 404 ''Reservation not found''), st)"
proof -
  have "find (\<lambda>r. r_id r = n) (reservations st) = None"
    using assms(3) by (simp add: find_None_iff)
  then show ?thesis
    using assms(1,2) by (simp add: put_reservation_cancel_def reservation_findUnique_plain)
qed

lemma put_reservation_cancel_found:
  assumes "parseInt_string id_param = Some n" "is_Int n"
    and "r \<in> set (reservations st)" "r_id r = n"
  shows "put_reservation_cancel st id_param = (Inl (PrismaError PrismaClientValidationError), st)"
proof -
  have "find (\<lambda>r. r_id r = n) (reservations st) \<noteq> None"
    using assms(3,4) by (auto simp: find_None_iff)
  then obtain r' where "find (\<lambda>r. r_id r = n) (reservations st) = Some r'" by blast
  then show ?thesis
    using assms(1,2)
    by (simp add: put_reservation_cancel_def reservation_findUnique_plain
                  reservation_update_rejected)
qed

text \<open>
  Claim C5 holds of the code only in its first half. For an id that parses to \<open>n\<close>: when no
  reservation has id \<open>n\<close>, \<^verbatim>\<open>PUT /reservations/:id/cancel\<close> fails with the 404 error
  and the store is unchanged, as claimed. When the reservation exists, the handler finds it
  and calls \<^verbatim>\<open>prisma.reservation.update\<close> with \<^verbatim>\<open>include: { user: true, ... }\<close>;
  the call is refused, so the response is a 500, the status is not set to
  \<^verbatim>\<open>cancelled\<close> and the table is not freed.
\<close>

theorem put_reservation_cancel_rejected:
  assumes "parseInt_string id_param = Some n" "is_Int n"
  shows "((\<forall>r \<in> set (reservations st). r_id r \<noteq> n)
          \<longrightarrow> put_reservation_cancel st id_param
                = (Inl (HttpError 404 ''Reservation not found''), st))
       \<and> ((\<exists>r \<in> set (reservations st). r_id r = n)
          \<longrightarrow> put_reservation_cancel st id_param
                = (Inl (PrismaError PrismaClientValidationError), st))"
  using assms put_reservation_cancel_not_found[of id_param n st]
        put_reservation_cancel_found[of id_param n _ st]
  by blast

theorem put_reservation_cancel_rejected_witness:
  "put_reservation_cancel booked_store ''1''
     = (Inl (PrismaError PrismaClientValidationError), booked_store)
   \<and> put_reservation_cancel booked_store ''7''
     = (Inl (HttpError 404 ''Reservation not found''), booked_store)
   \<and> map status (reservations booked_store) = [''booked'', ''cancelled'']
   \<and> map isAvailable (tables booked_store) = [False, True]"
  using put_reservation_cancel_rejected[of "''1''" 1 booked_store]
        put_reservation_cancel_rejected[of "''7''" 7 booked_store]
  by (simp add: booked_store_def is_Int_def parseInt_string_1 parseInt_string_7)

text \<open>
  Claim C6 does not hold of the code: cancelling an existing reservation twice fails both
  times with the refused update (a 500), and the store after the two calls is the store
  before them, with the reservation in the status it had.
\<close>

theorem put_reservation_cancel_twice:
  assumes "parseInt_string id_param = Some n" "is_Int n"
    and "r \<in> set (reservations st)" "r_id r = n"
  shows "fst (put_reservation_cancel st id_param) = Inl (PrismaError PrismaClientValidationError)
       \<and> fst (put_reservation_cancel (snd (put_reservation_cancel st id_param)) id_param)
           = Inl (PrismaError PrismaClientValidationError)
       \<and> snd (put_reservation_cancel (snd (put_reservation_cancel st id_param)) id_param) = st"
  using put_reservation_cancel_found[OF assms] by simp

theorem put_reservation_cancel_twice_witness:
  "http_status (fst (put_reservation_cancel booked_store ''1'')) = 500
   \<and> http_status
        (fst (put_reservation_cancel (snd (put_reservation_cancel booked_store ''1'')) ''1''))
       = 500
   \<and> map status
        (reservations
           (snd (put_reservation_cancel (snd (put_reservation_cancel booked_store ''1'')) ''1'')))
       = [''booked'', ''cancelled'']"
  using put_reservation_cancel_twice[of "''1''" 1 "hd (reservations booked_store)" booked_store]
  by (simp add: booked_store_def is_Int_def parseInt_string_1)

lemma set_Table_isAvailable:
  "set_Table None None (Some a) t = t\<lparr>isAvailable := a\<rparr>"
  by (simp add: set_Table_def)

lemma table_update_isAvailable:
  assumes "is_Int k" "t \<in> set (tables st)" "t_id t = k"
  shows "snd (table_update st (Some k) (no_table_updates\<lparr>upd_isAvailable := Some (JBool a)\<rparr>))
           = st\<lparr>tables := map (\<lambda>x. if t_id x = k then x\<lparr>isAvailable := a\<rparr> else x) (tables st)\<rparr>
         \<and> (\<exists>t'. fst (table_update st (Some k)
                          (no_table_updates\<lparr>upd_isAvailable := Some (JBool a)\<rparr>))
                   = Inr t')"
proof -
  have "find (\<lambda>t. t_id t = k) (tables st) \<noteq> None"
    using assms(2,3) by (auto simp: find_None_iff)
  then obtain t' where "find (\<lambda>t. t_id t = k) (tables st) = Some t'" by blast
  then show ?thesis
    using assms(1)
    by (simp add: table_update_def check_Int_def check_key_def check_Boolean_def
                  no_table_updates_def set_Table_isAvailable)
qed

lemma delete_reservation_not_found:
  assumes "parseInt_string id_param = Some n" "is_Int n"
    and "\<forall>r \<in> set (reservations st). r_id r \<noteq> n"
  shows "delete_reservation st id_param = (Inl (HttpError 404 ''Reservation not found''), st)"
proof -
  have "find (\<lambda>r. r_id r = n) (reservations st) = None"
    using assms(3) by (simp add: find_None_iff)
  then show ?thesis
    using assms(1,2) by (simp add: delete_reservation_def reservation_findUnique_plain)
qed

text \<open>The row is deleted and its table, if it has one, is marked available. The table
  exists by the foreign key of \<^verbatim>\<open>tableId\<close>, and its id is not 0, the ids being
  handed out from 1.\<close>

lemma delete_reservation_found:
  assumes "parseInt_string id_param = Some n" "is_Int n"
    and "find (\<lambda>r. r_id r = n) (reservations st) = Some r"
    and "\<And>k. tableId r = Some k \<Longrightarrow> k \<noteq> 0 \<and> is_Int k \<and> (\<exists>t \<in> set (tables st). t_id t = k)"
  shows "delete_reservation st id_param =
           (Inr (Reply 204 NoBody),
            st\<lparr>reservations := filter (\<lambda>x. r_id x \<noteq> n) (reservations st),
               tables := (case tableId r of
                            None \<Rightarrow> tables st
                          | Some k \<Rightarrow> map (\<lambda>x. if t_id x = k then x\<lparr>isAvailable := True\<rparr> else x)
                                         (tables st))\<rparr>)"
proof (cases "tableId r")
  case None
  then show ?thesis
    using assms(1-3)
    by (simp add: delete_reservation_def reservation_findUnique_plain reservation_delete_def
                  check_Int_def with_relations_def tableId_truthy_def)
next
  case (Some k)
  let ?st1 = "st\<lparr>reservations := filter (\<lambda>x. r_id x \<noteq> n) (reservations st)\<rparr>"
  from assms(4)[OF Some] obtain t
    where k: "k \<noteq> 0" "is_Int k" and t: "t \<in> set (tables ?st1)" "t_id t = k"
    by auto
  from table_update_isAvailable[OF k(2) t, of True]
  obtain t' where
    "table_update ?st1 (Some k) (no_table_updates\<lparr>upd_isAvailable := Some (JBool True)\<rparr>)
       = (Inr t', ?st1\<lparr>tables := map (\<lambda>x. if t_id x = k then x\<lparr>isAvailable := True\<rparr> else x)
                                      (tables ?st1)\<rparr>)"
    by (metis prod.collapse)
  then show ?thesis
    using assms(1-3) Some k(1)
    by (simp add: delete_reservation_def reservation_findUnique_plain reservation_delete_def
                  check_Int_def with_relations_def tableId_truthy_def)
qed

lemma deleted_row_is_gone:
  "find (\<lambda>r. r_id r = n) (filter (\<lambda>x. r_id x \<noteq> n) rs) = None"
  by (simp add: find_None_iff)

text \<open>
  Claim C7 holds of \<^verbatim>\<open>DELETE /reservations/:id\<close> itself and fails in the read that
  follows. For an id that parses to \<open>n\<close>: when no reservation has id \<open>n\<close> the call fails
  with the 404 error; for an existing reservation \<open>r\<close> (whose table, if any, exists) the
  call answers 204 with no body, every row with id \<open>n\<close> is gone and the table of \<open>r\<close> is
  marked available. A \<^verbatim>\<open>GET /reservations/:id\<close> for the same id then
  does not answer 404: its query carries \<^verbatim>\<open>include: { user: true, ... }\<close> and is
  refused, so the response is a 500.
\<close>

theorem delete_reservation_then_get:
  assumes "parseInt_string id_param = Some n" "is_Int n"
  shows "((\<forall>r \<in> set (reservations st). r_id r \<noteq> n)
          \<longrightarrow> delete_reservation st id_param
                = (Inl (HttpError 404 ''Reservation not found''), st))
       \<and> (find (\<lambda>r. r_id r = n) (reservations st) = Some r
          \<and> (\<forall>k. tableId r = Some k
                 \<longrightarrow> k \<noteq> 0 \<and> is_Int k \<and> (\<exists>t \<in> set (tables st). t_id t = k))
          \<longrightarrow> delete_reservation st id_param =
                (Inr (Reply 204 NoBody),
                 st\<lparr>reservations := filter (\<lambda>x. r_id x \<noteq> n) (reservations st),
                    tables := (case tableId r of
                                 None \<Rightarrow> tables st
                               | Some k \<Rightarrow>
                                   map (\<lambda>x. if t_id x = k then x\<lparr>isAvailable := True\<rparr> else x)
                                       (tables st))\<rparr>)
              \<and> find (\<lambda>x. r_id x = n) (reservations (snd (delete_reservation st id_param)))
                  = None
              \<and> get_reservation (snd (delete_reservation st id_param)) id_param
                  = (Inl (PrismaError PrismaClientValidationError),
                     snd (delete_reservation st id_param)))"
proof (rule conjI[OF impI impI])
  assume "\<forall>r \<in> set (reservations st). r_id r \<noteq> n"
  with assms show "delete_reservation st id_param
                     = (Inl (HttpError 404 ''Reservation not found''), st)"
    by (rule delete_reservation_not_found)
next
  assume h: "find (\<lambda>r. r_id r = n) (reservations st) = Some r
          \<and> (\<forall>k. tableId r = Some k
                 \<longrightarrow> k \<noteq> 0 \<and> is_Int k \<and> (\<exists>t \<in> set (tables st). t_id t = k))"
  then have d: "delete_reservation st id_param =
                (Inr (Reply 204 NoBody),
                 st\<lparr>reservations := filter (\<lambda>x. r_id x \<noteq> n) (reservations st),
                    tables := (case tableId r of
                                 None \<Rightarrow> tables st
                               | Some k \<Rightarrow>
                                   map (\<lambda>x. if t_id x = k then x\<lparr>isAvailable := True\<rparr> else x)
                                       (tables st))\<rparr>)"
    using assms by (intro delete_reservation_found) auto
  then show "delete_reservation st id_param =
                (Inr (Reply 204 NoBody),
                 st\<lparr>reservations := filter (\<lambda>x. r_id x \<noteq> n) (reservations st),
                    tables := (case tableId r of
                                 None \<Rightarrow> tables st
                               | Some k \<Rightarrow>
                                   map (\<lambda>x. if t_id x = k then x\<lparr>isAvailable := True\<rparr> else x)
                                       (tables st))\<rparr>)
              \<and> find (\<lambda>x. r_id x = n) (reservations (snd (delete_reservation st id_param)))
                  = None
              \<and> get_reservation (snd (delete_reservation st id_param)) id_param
                  = (Inl (PrismaError PrismaClientValidationError),
                     snd (delete_reservation st id_param))"
    by (simp add: get_reservation_rejected deleted_row_is_gone)
qed

theorem delete_reservation_then_get_witness:
  "delete_reservation booked_store ''1''
     = (Inr (Reply 204 NoBody),
        booked_store\<lparr>reservations :=
            [\<lparr>r_id = 2, date = 1749945600000, time = ''19:00'', people = 2,
              status = ''cancelled'', userId = 1, tableId = Some 2\<rparr>],
          tables :=
            [\<lparr>t_id = 1, name = ''Table 1'', capacity = 4, isAvailable = True\<rparr>,
             \<lparr>t_id = 2, name = ''Table 2'', capacity = 2, isAvailable = True\<rparr>]\<rparr>)
   \<and> http_status (fst (get_reservation (snd (delete_reservation booked_store ''1'')) ''1''))
       = 500
   \<and> delete_reservation booked_store ''7''
     = (Inl (HttpError 404 ''Reservation not found''), booked_store)"
proof -
  let ?r = "\<lparr>r_id = 1, date = 1749945600000, time = ''19:00'', people = 2, status = ''booked'',
            userId = 1, tableId = Some (1 :: int)\<rparr>"
  have found: "find (\<lambda>r. r_id r = 1) (reservations booked_store) = Some ?r
          \<and> (\<forall>k. tableId ?r = Some k
                 \<longrightarrow> k \<noteq> 0 \<and> is_Int k \<and> (\<exists>t \<in> set (tables booked_store). t_id t = k))"
    by (simp add: booked_store_def is_Int_def)
  have one: "is_Int 1" and seven: "is_Int 7" by (simp_all add: is_Int_def)
  note after = delete_reservation_then_get[OF parseInt_string_1 one, of booked_store ?r,
                 THEN conjunct2, rule_format, OF found]
  from after[THEN conjunct2, THEN conjunct2]
  have "fst (get_reservation (snd (delete_reservation booked_store ''1'')) ''1'')
          = Inl (PrismaError PrismaClientValidationError)"
    by (simp only: fst_conv)
  then have "http_status (fst (get_reservation (snd (delete_reservation booked_store ''1'')) ''1''))
               = 500"
    by simp
  moreover from after[THEN conjunct1]
  have "delete_reservation booked_store ''1''
     = (Inr (Reply 204 NoBody),
        booked_store\<lparr>reservations :=
            [\<lparr>r_id = 2, date = 1749945600000, time = ''19:00'', people = 2,
              status = ''cancelled'', userId = 1, tableId = Some 2\<rparr>],
          tables :=
            [\<lparr>t_id = 1, name = ''Table 1'', capacity = 4, isAvailable = True\<rparr>,
             \<lparr>t_id = 2, name = ''Table 2'', capacity = 2, isAvailable = True\<rparr>]\<rparr>)"
    by (simp add: booked_store_def)
  moreover have "delete_reservation booked_store ''7''
     = (Inl (HttpError 404 ''Reservation not found''), booked_store)"
    using delete_reservation_then_get[OF parseInt_string_7 seven, of booked_store ?r,
            THEN conjunct1]
    by (simp add: booked_store_def)
  ultimately show ?thesis by (intro conjI)
qed

section \<open>Updating a reservation\<close>

text \<open>Whatever its arguments and its \<^verbatim>\<open>include\<close>, \<^verbatim>\<open>prisma.reservation.update\<close>
  either leaves the store as it is or rewrites the rows with the given id, and of those
  only the columns \<^verbatim>\<open>date\<close>, \<^verbatim>\<open>time\<close>, \<^verbatim>\<open>people\<close> and \<^verbatim>\<open>status\<close>.\<close>

lemma reservation_update_store:
  "snd (reservation_update st w data inc) = st
   \<or> (\<exists>i d tm p s. w = Some i
        \<and> snd (reservation_update st w data inc)
            = st\<lparr>reservations := map (\<lambda>x. if r_id x = i then set_Reservation d tm p s x else x)
                                     (reservations st)\<rparr>)"
proof (cases "include_ok inc")
  case False
  then show ?thesis by (simp add: reservation_update_def)
next
  case ok: True
  show ?thesis
  proof (cases "check_Int w")
    case (Inl e)
    with ok show ?thesis by (simp add: reservation_update_def)
  next
    case i: (Inr i)
    then have w: "w = Some i" by (rule check_Int_Inr)
    show ?thesis
    proof (cases "check_opt_DateTime (upd_date data)")
      case (Inl e)
      with ok i show ?thesis by (simp add: reservation_update_def)
    next
      case d: (Inr d)
      show ?thesis
      proof (cases "check_opt_String (upd_time data)")
        case (Inl e)
        with ok i d show ?thesis by (simp add: reservation_update_def)
      next
        case tm: (Inr tm)
        show ?thesis
        proof (cases "check_opt_Int (upd_people data)")
          case (Inl e)
          with ok i d tm show ?thesis by (simp add: reservation_update_def)
        next
          case p: (Inr p)
          show ?thesis
          proof (cases "check_opt_String (upd_status data)")
            case (Inl e)
            with ok i d tm p show ?thesis by (simp add: reservation_update_def)
          next
            case s: (Inr s)
            show ?thesis
            proof (cases "find (\<lambda>r. r_id r = i) (reservations st)")
              case None
              with ok i d tm p s show ?thesis by (simp add: reservation_update_def)
            next
              case (Some r)
              with ok i d tm p s
              have "snd (reservation_update st w data inc)
                      = st\<lparr>reservations :=
                             map (\<lambda>x. if r_id x = i then set_Reservation d tm p s x else x)
                                 (reservations st)\<rparr>"
                by (simp add: reservation_update_def Let_def)
              with w show ?thesis by blast
            qed
          qed
        qed
      qed
    qed
  qed
qed

lemma reservation_update_frame:
  assumes "st' = snd (reservation_update st w data inc)"
  shows "tables st' = tables st \<and> users st' = users st
       \<and> list_all2 (\<lambda>r r'. r_id r' = r_id r \<and> userId r' = userId r \<and> tableId r' = tableId r
                          \<and> (Some (r_id r) \<noteq> w \<longrightarrow> r' = r))
            (reservations st) (reservations st')"
proof -
  consider "st' = st"
    | i d tm p s where "w = Some i"
        "st' = st\<lparr>reservations := map (\<lambda>x. if r_id x = i then set_Reservation d tm p s x else x)
                                      (reservations st)\<rparr>"
    using reservation_update_store[of st w data inc] assms by auto
  then show ?thesis
  proof cases
    case 1
    then show ?thesis by (simp add: list_all2_same)
  next
    case 2
    then show ?thesis
      by (auto intro!: list_all2_map_same simp: set_Reservation_def)
  qed
qed

text \<open>
  Claim C8. \<^verbatim>\<open>PUT /reservations/:id\<close> never touches a table: for every store, id and
  body (one that sets the status to \<^verbatim>\<open>cancelled\<close> or \<^verbatim>\<open>seated\<close> included), the
  tables and the users after the call are those before it, every reservation keeps its id,
  user and table, and a reservation with another id is unchanged. (With the
  \<^verbatim>\<open>include\<close> the handler passes, the update is in fact refused and the store does
  not change at all, see \<open>put_reservation_rejected\<close>; the frame holds for the update
  under any \<^verbatim>\<open>include\<close>, see \<open>reservation_update_frame\<close>.)
\<close>

theorem put_reservation_frame:
  assumes "st' = snd (put_reservation E st id_param b)"
  shows "tables st' = tables st \<and> users st' = users st
       \<and> list_all2 (\<lambda>r r'. r_id r' = r_id r \<and> userId r' = userId r \<and> tableId r' = tableId r
                          \<and> (Some (r_id r) \<noteq> parseInt_string id_param \<longrightarrow> r' = r))
            (reservations st) (reservations st')"
proof -
  let ?data = "\<lparr>upd_date = (if truthy (b ''date'') then Some (new_Date E (b ''date'')) else None),
                upd_time = b ''time'',
                upd_people = (if truthy (b ''people'') then Some (parseInt E (b ''people''))
                              else None),
                upd_status = b ''status''\<rparr>"
  obtain res st1 where
    u: "reservation_update st (parseInt_string id_param) ?data [''user'', ''table''] = (res, st1)"
    by (cases "reservation_update st (parseInt_string id_param) ?data [''user'', ''table'']")
  then have "snd (put_reservation E st id_param b) = st1"
    by (cases res) (simp_all add: put_reservation_def)
  with u have "snd (put_reservation E st id_param b)
          = snd (reservation_update st (parseInt_string id_param) ?data [''user'', ''table''])"
    by simp
  with assms show ?thesis
    by (intro reservation_update_frame[where data = ?data and inc = "[''user'', ''table'']"]) simp
qed

theorem put_reservation_frame_witness:
  "tables (snd (put_reservation sample_engine booked_store ''1'' cancel_body))
     = [\<lparr>t_id = 1, name = ''Table 1'', capacity = 4, isAvailable = False\<rparr>,
        \<lparr>t_id = 2, name = ''Table 2'', capacity = 2, isAvailable = True\<rparr>]
   \<and> reservations (snd (put_reservation sample_engine booked_store ''1'' cancel_body)) ! 1
     = \<lparr>r_id = 2, date = 1749945600000, time = ''19:00'', people = 2, status = ''cancelled'',
        userId = 1, tableId = Some 2\<rparr>"
proof -
  let ?st' = "snd (put_reservation sample_engine booked_store ''1'' cancel_body)"
  from put_reservation_frame[of ?st' sample_engine booked_store "''1''" cancel_body]
  have t: "tables ?st' = tables booked_store"
    and r: "list_all2 (\<lambda>r r'. r_id r' = r_id r \<and> userId r' = userId r \<and> tableId r' = tableId r
                          \<and> (Some (r_id r) \<noteq> parseInt_string ''1'' \<longrightarrow> r' = r))
            (reservations booked_store) (reservations ?st')"
    by simp_all
  from r have "reservations ?st' ! 1 = reservations booked_store ! 1"
    by (auto simp: list_all2_conv_all_nth parseInt_string_1 booked_store_def)
  with t show ?thesis by (simp add: booked_store_def)
qed


section \<open>Patching a table\<close>

lemma patch_name:
  "check_key check_String (upd_name (table_patch_updates b))
     = Inr (case b ''name'' of JStr s \<Rightarrow> if s = [] then None else Some s | _ \<Rightarrow> None)"
  by (cases "b ''name''") (simp_all add: table_patch_updates_def check_key_def check_String_def)

lemma patch_isAvailable:
  "check_key check_Boolean (upd_isAvailable (table_patch_updates b))
     = Inr (case b ''isAvailable'' of JBool a \<Rightarrow> Some a | _ \<Rightarrow> None)"
  by (cases "b ''isAvailable''")
     (simp_all add: table_patch_updates_def check_key_def check_Boolean_def)

lemma patch_capacity:
  assumes "\<forall>n. b ''capacity'' = JNum (of_int n) \<longrightarrow> is_Int n"
  shows "check_key check_Int_value (upd_capacity (table_patch_updates b))
     = Inr (case b ''capacity'' of
              JNum q \<Rightarrow> if of_int \<lfloor>q\<rfloor> = q \<and> 1 \<le> q then Some \<lfloor>q\<rfloor> else None
            | _ \<Rightarrow> None)"
proof (cases "b ''capacity''")
  case (JNum q)
  show ?thesis
  proof (cases "of_int \<lfloor>q\<rfloor> = q \<and> 1 \<le> q")
    case True
    then have "b ''capacity'' = JNum (of_int \<lfloor>q\<rfloor>)"
        using JNum by (simp del: of_int_floor_cancel)
    then have "is_Int \<lfloor>q\<rfloor>" using assms by blast
    moreover have "q \<noteq> 0" using True by auto
    ultimately show ?thesis
      using True JNum
      by (simp add: table_patch_updates_def check_key_def check_Int_value_def ge_one_def
               del: of_int_floor_cancel)
  next
    case False
    then show ?thesis
      using JNum
      by (auto simp: table_patch_updates_def check_key_def check_Int_value_def ge_one_def
               simp del: of_int_floor_cancel)
  qed
qed (simp_all add: table_patch_updates_def check_key_def ge_one_def)

lemma set_Table_written:
  "set_Table (case b ''name'' of JStr s \<Rightarrow> if s = [] then None else Some s | _ \<Rightarrow> None)
             (case b ''capacity'' of
                JNum q \<Rightarrow> if of_int \<lfloor>q\<rfloor> = q \<and> 1 \<le> q then Some \<lfloor>q\<rfloor> else None
              | _ \<Rightarrow> None)
             (case b ''isAvailable'' of JBool a \<Rightarrow> Some a | _ \<Rightarrow> None)
     = written_table b"
  by (rule ext) (simp add: set_Table_def written_table_def split: jsval.splits)

lemma no_valid_table_field:
  assumes "\<forall>s. b ''name'' = JStr s \<longrightarrow> s = []"
    and "\<forall>n. b ''capacity'' = JNum (of_int n) \<longrightarrow> n < 1"
    and "\<forall>a. b ''isAvailable'' \<noteq> JBool a"
  shows "upd_name (table_patch_updates b) = None
       \<and> upd_capacity (table_patch_updates b) = None
       \<and> upd_isAvailable (table_patch_updates b) = None"
proof (intro conjI)
  show "upd_name (table_patch_updates b) = None"
    using assms(1) by (cases "b ''name''") (simp_all add: table_patch_updates_def)
  show "upd_isAvailable (table_patch_updates b) = None"
  proof (cases "b ''isAvailable''")
    case (JBool a)
    with assms(3) show ?thesis by blast
  qed (simp_all add: table_patch_updates_def)
  show "upd_capacity (table_patch_updates b) = None"
  proof (cases "b ''capacity''")
    case (JNum q)
    have "\<not> (of_int \<lfloor>q\<rfloor> = q \<and> 1 \<le> q)"
    proof
      assume h: "of_int \<lfloor>q\<rfloor> = q \<and> 1 \<le> q"
      then have "b ''capacity'' = JNum (of_int \<lfloor>q\<rfloor>)"
        using JNum by (simp del: of_int_floor_cancel)
      then have "\<lfloor>q\<rfloor> < 1" using assms(2) by blast
      then show False using h by linarith
    qed
    then show ?thesis
      using JNum by (auto simp: table_patch_updates_def ge_one_def simp del: of_int_floor_cancel)
  qed (simp_all add: table_patch_updates_def)
qed

lemma some_valid_table_field:
  assumes "(\<exists>s. b ''name'' = JStr s \<and> s \<noteq> []) \<or> (\<exists>n. b ''capacity'' = JNum (of_int n) \<and> 1 \<le> n)
           \<or> (\<exists>a. b ''isAvailable'' = JBool a)"
  shows "\<not> (upd_name (table_patch_updates b) = None
           \<and> upd_capacity (table_patch_updates b) = None
           \<and> upd_isAvailable (table_patch_updates b) = None)"
  using assms by (auto simp: table_patch_updates_def ge_one_def)

text \<open>
  Claim C9. A \<^verbatim>\<open>PATCH /tables/:id\<close> whose body has no valid field (no \<^verbatim>\<open>name\<close>
  that is a non-empty string, no \<^verbatim>\<open>capacity\<close> that is an integer of at least 1, no
  boolean \<^verbatim>\<open>isAvailable\<close>: the empty body, or only invalid values) fails with the 400
  error \<^verbatim>\<open>No valid fields to update\<close> and the store is unchanged. When at least one
  field is valid (the capacity within the column's range, the id that of an existing table),
  the call answers 200 with the row in which exactly the valid fields are written, the
  invalid ones keeping their values, and no other row changes.
\<close>

theorem patch_table_valid_fields:
  "((\<forall>s. b ''name'' = JStr s \<longrightarrow> s = []) \<and> (\<forall>n. b ''capacity'' = JNum (of_int n) \<longrightarrow> n < 1)
      \<and> (\<forall>a. b ''isAvailable'' \<noteq> JBool a)
     \<longrightarrow> patch_table st id_param b = (Inl (HttpError 400 ''No valid fields to update''), st))
   \<and> (((\<exists>s. b ''name'' = JStr s \<and> s \<noteq> []) \<or> (\<exists>n. b ''capacity'' = JNum (of_int n) \<and> 1 \<le> n)
        \<or> (\<exists>a. b ''isAvailable'' = JBool a))
      \<and> (\<forall>n. b ''capacity'' = JNum (of_int n) \<longrightarrow> is_Int n)
      \<and> parseInt_string id_param = Some i \<and> is_Int i
      \<and> find (\<lambda>t. t_id t = i) (tables st) = Some t
     \<longrightarrow> patch_table st id_param b =
           (Inr (Reply 200 (TableJson (written_table b t))),
            st\<lparr>tables := map (\<lambda>x. if t_id x = i then written_table b x else x) (tables st)\<rparr>))"
proof (intro conjI impI)
  assume "(\<forall>s. b ''name'' = JStr s \<longrightarrow> s = []) \<and> (\<forall>n. b ''capacity'' = JNum (of_int n) \<longrightarrow> n < 1)
      \<and> (\<forall>a. b ''isAvailable'' \<noteq> JBool a)"
  then show "patch_table st id_param b = (Inl (HttpError 400 ''No valid fields to update''), st)"
    using no_valid_table_field[of b] by (simp add: patch_table_def)
next
  assume h: "((\<exists>s. b ''name'' = JStr s \<and> s \<noteq> []) \<or> (\<exists>n. b ''capacity'' = JNum (of_int n) \<and> 1 \<le> n)
        \<or> (\<exists>a. b ''isAvailable'' = JBool a))
      \<and> (\<forall>n. b ''capacity'' = JNum (of_int n) \<longrightarrow> is_Int n)
      \<and> parseInt_string id_param = Some i \<and> is_Int i
      \<and> find (\<lambda>t. t_id t = i) (tables st) = Some t"
  then have some: "\<not> (upd_name (table_patch_updates b) = None
           \<and> upd_capacity (table_patch_updates b) = None
           \<and> upd_isAvailable (table_patch_updates b) = None)"
    by (intro some_valid_table_field) blast
  have upd: "table_update st (Some i) (table_patch_updates b) =
          (Inr (written_table b t),
           st\<lparr>tables := map (\<lambda>x. if t_id x = i then written_table b x else x) (tables st)\<rparr>)"
    using h patch_capacity[of b]
    by (simp add: table_update_def check_Int_def patch_name patch_isAvailable set_Table_written)
  show "patch_table st id_param b =
           (Inr (Reply 200 (TableJson (written_table b t))),
            st\<lparr>tables := map (\<lambda>x. if t_id x = i then written_table b x else x) (tables st)\<rparr>)"
    using some h upd by (simp add: patch_table_def Let_def)
qed


theorem patch_table_valid_fields_witness:
  "patch_table sample_store ''1'' empty_body
     = (Inl (HttpError 400 ''No valid fields to update''), sample_store)
   \<and> patch_table sample_store ''1''
        (empty_body(''name'' := JNum 3, ''capacity'' := JNum (5 / 2), ''isAvailable'' := JStr ''true''))
     = (Inl (HttpError 400 ''No valid fields to update''), sample_store)
   \<and> patch_table sample_store ''1'' (empty_body(''name'' := JNum 3, ''capacity'' := JNum 6))
     = (Inr (Reply 200 (TableJson
              \<lparr>t_id = 1, name = ''Table 1'', capacity = 6, isAvailable = True\<rparr>)),
        sample_store\<lparr>tables :=
          [\<lparr>t_id = 1, name = ''Table 1'', capacity = 6, isAvailable = True\<rparr>]\<rparr>)"
proof -
  have frac: "(5 / 2 :: rat) \<noteq> of_int n" for n
  proof
    assume "(5 / 2 :: rat) = of_int n"
    then have "(of_int (2 * n) :: rat) = of_int 5" by simp
    then have "2 * n = 5" by (simp only: of_int_eq_iff)
    then show False by presburger
  qed
  have six: "JNum 6 = JNum (rat_of_int n) \<longleftrightarrow> n = 6" for n
  proof -
    have "(6 :: rat) = of_int n \<longleftrightarrow> of_int 6 = (of_int n :: rat)" by simp
    also have "\<dots> \<longleftrightarrow> n = 6" by (simp only: of_int_eq_iff) auto
    finally show ?thesis by simp
  qed
  show ?thesis
    using patch_table_valid_fields[of empty_body sample_store "''1''" 1
            "\<lparr>t_id = 1, name = ''Table 1'', capacity = 4, isAvailable = True\<rparr>"]
          patch_table_valid_fields[of
            "empty_body(''name'' := JNum 3, ''capacity'' := JNum (5 / 2),
                        ''isAvailable'' := JStr ''true'')"
            sample_store "''1''" 1
            "\<lparr>t_id = 1, name = ''Table 1'', capacity = 4, isAvailable = True\<rparr>"]
          patch_table_valid_fields[of "empty_body(''name'' := JNum 3, ''capacity'' := JNum 6)"
            sample_store "''1''" 1
            "\<lparr>t_id = 1, name = ''Table 1'', capacity = 4, isAvailable = True\<rparr>"]
          frac
    by (simp add: empty_body_def sample_store_def six parseInt_string_1 is_Int_def
                  written_table_def)
qed

section \<open>Patching a user\<close>

lemma user_update_isAdmin_only:
  assumes "is_Int i" "find (\<lambda>u. u_id u = i) (users st) = Some u"
  shows "user_update st (Some i)
           \<lparr>upd_username = None, upd_email = None, upd_password = None,
            upd_isAdmin = Some (JBool a)\<rparr>
         = (Inr (u\<lparr>isAdmin := a\<rparr>),
            st\<lparr>users := map (\<lambda>x. if u_id x = i then x\<lparr>isAdmin := a\<rparr> else x) (users st)\<rparr>)"
  using assms
  by (simp add: user_update_def check_Int_def check_key_def check_Boolean_def set_User_def)

text \<open>
  Claim C10. \<^verbatim>\<open>PATCH /users/:id\<close> treats falsy values of \<^verbatim>\<open>username\<close>,
  \<^verbatim>\<open>email\<close> and \<^verbatim>\<open>password\<close> as absent: when all three are falsy (empty strings,
  say) and \<^verbatim>\<open>isAdmin\<close> is undefined, the call fails with the 400 error
  \<^verbatim>\<open>No fields to update\<close> and the store is unchanged. \<^verbatim>\<open>isAdmin\<close> is compared
  with undefined, not tested for truth: a body that holds only \<^verbatim>\<open>isAdmin: false\<close> is
  a one-field update, which for an existing user answers 200 and writes the flag.
\<close>

theorem patch_user_fields:
  "(\<not> truthy (b ''username'') \<and> \<not> truthy (b ''email'') \<and> \<not> truthy (b ''password'')
      \<and> b ''isAdmin'' = JUndefined
     \<longrightarrow> patch_user st id_param b = (Inl (HttpError 400 ''No fields to update''), st))
   \<and> (\<not> truthy (b ''username'') \<and> \<not> truthy (b ''email'') \<and> \<not> truthy (b ''password'')
      \<and> b ''isAdmin'' = JBool False
      \<and> parseInt_string id_param = Some i \<and> is_Int i
      \<and> find (\<lambda>u. u_id u = i) (users st) = Some u
     \<longrightarrow> patch_user st id_param b =
           (Inr (Reply 200 (UserJson (u\<lparr>isAdmin := False\<rparr>))),
            st\<lparr>users := map (\<lambda>x. if u_id x = i then x\<lparr>isAdmin := False\<rparr> else x)
                              (users st)\<rparr>))"
  by (simp add: patch_user_def user_patch_updates_def user_update_isAdmin_only)

theorem patch_user_fields_witness:
  "patch_user sample_store ''1''
      (empty_body(''username'' := JStr [], ''email'' := JStr [], ''password'' := JStr []))
     = (Inl (HttpError 400 ''No fields to update''), sample_store)
   \<and> patch_user (sample_store\<lparr>users := [\<lparr>u_id = 1, username = ''John'',
          email = ''john@example.com'', password = ''secret'', isAdmin = True\<rparr>]\<rparr>) ''1''
        (empty_body(''isAdmin'' := JBool False))
     = (Inr (Reply 200 (UserJson \<lparr>u_id = 1, username = ''John'', email = ''john@example.com'',
                                   password = ''secret'', isAdmin = False\<rparr>)),
        sample_store)"
  using patch_user_fields[of
          "empty_body(''username'' := JStr [], ''email'' := JStr [], ''password'' := JStr [])"
          sample_store "''1''" 1
          "\<lparr>u_id = 1, username = ''John'', email = ''john@example.com'', password = ''secret'',
            isAdmin = False\<rparr>"]
        patch_user_fields[of "empty_body(''isAdmin'' := JBool False)"
          "sample_store\<lparr>users := [\<lparr>u_id = 1, username = ''John'',
             email = ''john@example.com'', password = ''secret'', isAdmin = True\<rparr>]\<rparr>" "''1''" 1
          "\<lparr>u_id = 1, username = ''John'', email = ''john@example.com'', password = ''secret'',
            isAdmin = True\<rparr>"]
  by (simp add: empty_body_def sample_store_def parseInt_string_1 is_Int_def)

end
